theory Spec2Isabelle
  imports Main
begin

section \<open>Python values\<close>

text \<open>
  The script keeps every platform answer as the untyped value that \<^verbatim>\<open>response.json()\<close>
  returns and reads it with \<^verbatim>\<open>.get\<close>, truthiness tests, \<^verbatim>\<open>in\<close> and \<^verbatim>\<open>or\<close>. The embedding
  therefore works on Python values: \<^verbatim>\<open>None\<close>, booleans, integers, strings, lists and
  dictionaries (an association list in insertion order, with pairwise different keys).
  Floating point numbers are the one kind of JSON value left out.
\<close>

datatype pyval =
    PNone
  | PBool bool
  | PInt int
  | PStr string
  | PList "pyval list"
  | PDict "(pyval \<times> pyval) list"

text \<open>The exceptions that the script does not catch.\<close>

datatype py_exn = AttributeError | TypeError | UnboundLocalError

definition bind_py :: "py_exn + 'a \<Rightarrow> ('a \<Rightarrow> py_exn + 'b) \<Rightarrow> py_exn + 'b" where
  "bind_py m f = (case m of Inl e \<Rightarrow> Inl e | Inr x \<Rightarrow> f x)"

text \<open>Truth value testing (\<^verbatim>\<open>if x:\<close>, \<^verbatim>\<open>not x\<close>, \<^verbatim>\<open>x or y\<close>, \<^verbatim>\<open>x and y\<close>).\<close>

fun truthy :: "pyval \<Rightarrow> bool" where
  "truthy PNone = False"
| "truthy (PBool b) = b"
| "truthy (PInt n) = (n \<noteq> 0)"
| "truthy (PStr s) = (s \<noteq> [])"
| "truthy (PList xs) = (xs \<noteq> [])"
| "truthy (PDict kvs) = (kvs \<noteq> [])"

definition py_or :: "pyval \<Rightarrow> pyval \<Rightarrow> pyval" where
  "py_or a b = (if truthy a then a else b)"

text \<open>
  \<^verbatim>\<open>d.get(k, default)\<close> with a string key: only a dictionary has the method, any other
  receiver raises \<^verbatim>\<open>AttributeError\<close>. A key that is present with value \<^verbatim>\<open>None\<close> gives
  \<^verbatim>\<open>None\<close>, not the default.
\<close>

definition dict_get :: "(pyval \<times> pyval) list \<Rightarrow> string \<Rightarrow> pyval \<Rightarrow> pyval" where
  "dict_get kvs k dflt = (case map_of kvs (PStr k) of None \<Rightarrow> dflt | Some v \<Rightarrow> v)"

definition py_get :: "pyval \<Rightarrow> string \<Rightarrow> pyval \<Rightarrow> py_exn + pyval" where
  "py_get d k dflt =
     (case d of PDict kvs \<Rightarrow> Inr (dict_get kvs k dflt) | _ \<Rightarrow> Inl AttributeError)"

text \<open>
  Iteration (\<^verbatim>\<open>for x in v\<close>, \<^verbatim>\<open>list.extend(v)\<close>): a list gives its elements, a string its
  characters, a dictionary its keys; \<^verbatim>\<open>None\<close>, booleans and integers raise \<^verbatim>\<open>TypeError\<close>.
\<close>

definition py_iter :: "pyval \<Rightarrow> py_exn + pyval list" where
  "py_iter v =
     (case v of
        PList xs \<Rightarrow> Inr xs
      | PStr s \<Rightarrow> Inr (map (\<lambda>c. PStr [c]) s)
      | PDict kvs \<Rightarrow> Inr (map fst kvs)
      | _ \<Rightarrow> Inl TypeError)"

text \<open>
  \<^verbatim>\<open>'s' in v\<close> for a string \<^verbatim>\<open>s\<close>: membership in a list, substring of a string, key of a
  dictionary; \<^verbatim>\<open>TypeError\<close> for a value that is not a container.
\<close>

fun starts_with :: "string \<Rightarrow> string \<Rightarrow> bool" where
  "starts_with [] ys = True"
| "starts_with (x # xs) [] = False"
| "starts_with (x # xs) (y # ys) = (x = y \<and> starts_with xs ys)"

fun substring_of :: "string \<Rightarrow> string \<Rightarrow> bool" where
  "substring_of xs [] = (xs = [])"
| "substring_of xs (y # ys) = (starts_with xs (y # ys) \<or> substring_of xs ys)"

definition py_in :: "string \<Rightarrow> pyval \<Rightarrow> py_exn + bool" where
  "py_in s v =
     (case v of
        PList xs \<Rightarrow> Inr (PStr s \<in> set xs)
      | PStr t \<Rightarrow> Inr (substring_of s t)
      | PDict kvs \<Rightarrow> Inr (PStr s \<in> fst ` set kvs)
      | _ \<Rightarrow> Inl TypeError)"

text \<open>
  \<^verbatim>\<open>d[k] = v\<close>. Lists and dictionaries are unhashable keys (\<^verbatim>\<open>TypeError\<close>). Python
  compares keys with \<^verbatim>\<open>==\<close>, under which \<^verbatim>\<open>True\<close> and \<^verbatim>\<open>1\<close> (and \<^verbatim>\<open>False\<close> and \<^verbatim>\<open>0\<close>) are
  one key. An existing key keeps its place and its key object and gets the new value; a
  new key goes to the end.
\<close>

definition py_key_eq :: "pyval \<Rightarrow> pyval \<Rightarrow> bool" where
  "py_key_eq a b =
     (case (a, b) of
        (PBool x, PInt n) \<Rightarrow> n = (if x then 1 else 0)
      | (PInt n, PBool x) \<Rightarrow> n = (if x then 1 else 0)
      | _ \<Rightarrow> a = b)"

fun dict_update :: "(pyval \<times> pyval) list \<Rightarrow> pyval \<Rightarrow> pyval \<Rightarrow> (pyval \<times> pyval) list" where
  "dict_update [] k v = [(k, v)]"
| "dict_update ((k', v') # kvs) k v =
     (if py_key_eq k' k then (k', v) # kvs else (k', v') # dict_update kvs k v)"

definition hashable :: "pyval \<Rightarrow> bool" where
  "hashable k = (case k of PList _ \<Rightarrow> False | PDict _ \<Rightarrow> False | _ \<Rightarrow> True)"

definition dict_setitem ::
  "(pyval \<times> pyval) list \<Rightarrow> pyval \<Rightarrow> pyval \<Rightarrow> py_exn + (pyval \<times> pyval) list" where
  "dict_setitem kvs k v = (if hashable k then Inr (dict_update kvs k v) else Inl TypeError)"

section \<open>Mapping Vercel settings to the Cloudflare Pages payload\<close>

text \<open>
  The body of the loop \<^verbatim>\<open>for var in vercel_env_vars\<close> of
  \<^verbatim>\<open>create_cloudflare_pages_project\<close>, on the pair
  \<^verbatim>\<open>(environment_variables, preview_environment_variables)\<close>.
\<close>

definition env_var_step ::
  "pyval \<Rightarrow> (pyval \<times> pyval) list \<times> (pyval \<times> pyval) list \<Rightarrow>
   py_exn + (pyval \<times> pyval) list \<times> (pyval \<times> pyval) list" where
  "env_var_step var acc =
     bind_py (py_get var ''target'' (PList [])) (\<lambda>targets.
     bind_py (py_get var ''key'' PNone) (\<lambda>var_name.
     bind_py (py_get var ''value'' PNone) (\<lambda>var_value.
     bind_py (py_get var ''type'' PNone) (\<lambda>var_type.
       if truthy var_name \<and> truthy var_value then
         bind_py (py_in ''production'' targets) (\<lambda>in_production.
         bind_py (if in_production then dict_setitem (fst acc) var_name var_value
                  else Inr (fst acc)) (\<lambda>environment_variables.
         bind_py (py_in ''preview'' targets) (\<lambda>in_preview.
         bind_py (if in_preview then dict_setitem (snd acc) var_name var_value
                  else Inr (snd acc)) (\<lambda>preview_environment_variables.
           Inr (environment_variables, preview_environment_variables)))))
       else Inr acc))))"

fun env_var_loop ::
  "pyval list \<Rightarrow> (pyval \<times> pyval) list \<times> (pyval \<times> pyval) list \<Rightarrow>
   py_exn + (pyval \<times> pyval) list \<times> (pyval \<times> pyval) list" where
  "env_var_loop [] acc = Inr acc"
| "env_var_loop (var # vars) acc =
     (case env_var_step var acc of Inl e \<Rightarrow> Inl e | Inr acc' \<Rightarrow> env_var_loop vars acc')"

text \<open>
  The part of \<^verbatim>\<open>create_cloudflare_pages_project\<close> before the API call (it makes no
  request): either an uncaught exception, or one of the two early \<^verbatim>\<open>return None\<close>
  (missing name; not linked to GitHub), or the payload of the request. The project name
  is kept for the messages.
\<close>

datatype prepared =
    MissingName
  | NotGithub pyval
  | Payload pyval pyval

definition not_github :: "pyval \<Rightarrow> py_exn + bool" where
  "not_github repo_info =
     (if \<not> truthy repo_info then Inr True
      else bind_py (py_get repo_info ''type'' PNone) (\<lambda>t. Inr (t \<noteq> PStr ''github'')))"

definition prepare_payload :: "pyval \<Rightarrow> py_exn + prepared" where
  "prepare_payload vercel_project_details =
     bind_py (py_get vercel_project_details ''info'' (PDict [])) (\<lambda>vercel_info.
     bind_py (py_get vercel_project_details ''env_vars'' (PList [])) (\<lambda>vercel_env_vars.
     bind_py (py_get vercel_info ''name'' PNone) (\<lambda>project_name.
       if \<not> truthy project_name then Inr MissingName
       else
         bind_py (py_get vercel_info ''link'' PNone) (\<lambda>repo_info.
         bind_py (py_get vercel_info ''build'' (PDict [])) (\<lambda>build_settings.
         bind_py (py_get vercel_info ''framework'' PNone) (\<lambda>framework.
         bind_py (py_get vercel_info ''buildCommand'' PNone) (\<lambda>build_command.
         bind_py (py_get vercel_info ''outputDirectory'' PNone) (\<lambda>output_dir.
         bind_py (py_get vercel_info ''rootDirectory'' PNone) (\<lambda>root_directory.
         bind_py (py_iter vercel_env_vars) (\<lambda>vars.
         bind_py (env_var_loop vars ([], [])) (\<lambda>envs.
         bind_py (not_github repo_info) (\<lambda>skip.
           if skip then Inr (NotGithub project_name)
           else
             bind_py (py_get vercel_info ''productionBranch'' PNone) (\<lambda>production_branch.
             bind_py (py_get repo_info ''org'' PNone) (\<lambda>org.
             bind_py (py_get repo_info ''repo'' PNone) (\<lambda>repo.
               Inr (Payload project_name (PDict [
                 (PStr ''name'', project_name),
                 (PStr ''production_branch'', py_or production_branch (PStr ''main'')),
                 (PStr ''build_config'', PDict [
                    (PStr ''build_command'', build_command),
                    (PStr ''output_dir'', output_dir),
                    (PStr ''root_dir'', py_or root_directory (PStr ''/'')),
                    (PStr ''web_analytics_tag'', PNone),
                    (PStr ''web_analytics_token'', PNone)]),
                 (PStr ''source'', PDict [
                    (PStr ''type'', PStr ''github''),
                    (PStr ''config'', PDict [
                       (PStr ''owner'', org),
                       (PStr ''repo_name'', repo),
                       (PStr ''production_branch'', py_or production_branch (PStr ''main'')),
                       (PStr ''pr_comments_enabled'', PBool True),
                       (PStr ''deployments_enabled'', PBool True)])]),
                 (PStr ''deployment_configs'', PDict [
                    (PStr ''preview'', PDict [
                       (PStr ''environment_variables'', PDict (snd envs))]),
                    (PStr ''production'', PDict [
                       (PStr ''environment_variables'', PDict (fst envs))])])])))))))))))))))))"

section \<open>The two platforms as a script of replies\<close>

text \<open>
  The addresses that the script builds with f-strings, with the interpolated value kept
  as it is: the project list of Vercel (first page, and the page after a cursor), the
  three resources of one project, and the Pages projects of a Cloudflare account.
\<close>

datatype url =
    VercelProjects
  | VercelProjectsUntil pyval
  | VercelProject pyval
  | VercelProjectEnv pyval
  | VercelProjectDomains pyval
  | CloudflarePagesProjects string

text \<open>A request carries its address, the bearer token and, for a POST, the JSON body.\<close>

datatype request = Get url string | Post url string pyval

text \<open>
  What \<^verbatim>\<open>requests.get\<close> or \<^verbatim>\<open>requests.post\<close> does: it raises a
  \<^verbatim>\<open>RequestException\<close> and returns no response object (a transport failure), or it returns
  a response with a status code and a body, which is JSON text (its decoded value) or is
  not (\<^verbatim>\<open>response.json()\<close> then raises \<^verbatim>\<open>requests.exceptions.JSONDecodeError\<close>, itself a
  \<^verbatim>\<open>RequestException\<close>).
\<close>

datatype reply = ConnectionFailed | Response nat "pyval option"

text \<open>The lines that the script prints, one constructor for each \<^verbatim>\<open>print\<close>.\<close>

datatype msg =
    ErrorFetchingProjects
  | ResponseStatus nat
  | ResponseText "pyval option"
  | ErrorFetchingInfo pyval
  | ErrorFetchingEnvVars pyval
  | ErrorFetchingDomains pyval
  | SkippingMissingName
  | SkippingNotGithub pyval
  | PagesSupportsGitOrUpload
  | ManualMigrationNeeded
  | AttemptingToCreate pyval
  | SuccessfullyCreated pyval
  | Subdomain pyval
  | ErrorCreating pyval
  | FetchingProjects
  | FetchingSpecific string
  | CouldNotFetchDetails string
  | FailedOrNoProjects
  | FoundProjects nat
  | ProcessingProject pyval pyval
  | SkippingMissingId
  | SkippingAutomaticMigration pyval
  | ManualMigrationMightBeRequired
  | SkippingFailedDetails pyval
  | MigrationFinished

text \<open>
  The world outside the script: the replies still to come (the next request gets the
  first of them, whatever it asks), the requests made so far and the lines printed so far.
\<close>

record world =
  replies :: "reply list"
  sent :: "request list"
  printed :: "msg list"

text \<open>
  A call either finds the script of replies exhausted, or raises an exception that
  nothing catches, or returns a value.
\<close>

datatype 'a outcome = NoReply | Crash py_exn world | Done 'a world

definition http :: "world \<Rightarrow> request \<Rightarrow> (reply \<times> world) option" where
  "http w rq =
     (case replies w of
        [] \<Rightarrow> None
      | r # rs \<Rightarrow> Some (r, w\<lparr>replies := rs, sent := sent w @ [rq]\<rparr>))"

definition prints :: "world \<Rightarrow> msg list \<Rightarrow> world" where
  "prints w ms = w\<lparr>printed := printed w @ ms\<rparr>"

text \<open>\<^verbatim>\<open>response.raise_for_status()\<close> raises for the status codes 400 to 599.\<close>

definition http_error :: "nat \<Rightarrow> bool" where
  "http_error st = (400 \<le> st \<and> st < 600)"

text \<open>
  The value of \<^verbatim>\<open>response.json()\<close> when the three calls \<^verbatim>\<open>requests.get\<close>,
  \<^verbatim>\<open>raise_for_status\<close> and \<^verbatim>\<open>json\<close> all pass; \<open>None\<close> when one of them raises a
  \<^verbatim>\<open>RequestException\<close>.
\<close>

definition fetched :: "reply \<Rightarrow> pyval option" where
  "fetched r =
     (case r of
        ConnectionFailed \<Rightarrow> None
      | Response st body \<Rightarrow> if http_error st then None else body)"

section \<open>Listing the Vercel projects\<close>

text \<open>
  The handler of \<^verbatim>\<open>get_vercel_projects\<close>. The local variable \<^verbatim>\<open>response\<close> is unbound until
  a call of \<^verbatim>\<open>requests.get\<close> has returned; reading it then raises \<^verbatim>\<open>UnboundLocalError\<close>.
\<close>

definition projects_handler :: "world \<Rightarrow> (nat \<times> pyval option) option \<Rightarrow> pyval outcome" where
  "projects_handler w response =
     (case response of
        None \<Rightarrow> Crash UnboundLocalError (prints w [ErrorFetchingProjects])
      | Some (st, body) \<Rightarrow>
          Done PNone (prints w [ErrorFetchingProjects, ResponseStatus st, ResponseText body]))"

text \<open>
  The loop \<^verbatim>\<open>while url\<close>, from the state \<^verbatim>\<open>(url, projects, response)\<close>. Every turn makes
  one request, so the script of replies bounds the number of turns.
\<close>

function get_vercel_projects_loop ::
  "world \<Rightarrow> string \<Rightarrow> url \<Rightarrow> pyval list \<Rightarrow> (nat \<times> pyval option) option \<Rightarrow> pyval outcome" where
  "get_vercel_projects_loop w api_token url projects response =
     (case http w (Get url api_token) of
        None \<Rightarrow> NoReply
      | Some (ConnectionFailed, w1) \<Rightarrow> projects_handler w1 response
      | Some (Response st body, w1) \<Rightarrow>
          if http_error st then projects_handler w1 (Some (st, body))
          else
            (case body of
               None \<Rightarrow> projects_handler w1 (Some (st, body))
             | Some data \<Rightarrow>
                 (case bind_py (py_get data ''projects'' (PList [])) py_iter of
                    Inl e \<Rightarrow> Crash e w1
                  | Inr page \<Rightarrow>
                      (case bind_py (py_get data ''pagination'' (PDict []))
                              (\<lambda>pagination. py_get pagination ''next'' PNone) of
                         Inl e \<Rightarrow> Crash e w1
                       | Inr next_page \<Rightarrow>
                           if truthy next_page
                           then get_vercel_projects_loop w1 api_token
                                  (VercelProjectsUntil next_page) (projects @ page)
                                  (Some (st, body))
                           else Done (PList (projects @ page)) w1))))"
  by pat_completeness auto
termination
  by (relation "measure (\<lambda>(w, api_token, url, projects, response). length (replies w))")
     (auto simp: http_def split: list.splits)

declare get_vercel_projects_loop.simps [simp del]

definition get_vercel_projects :: "world \<Rightarrow> string \<Rightarrow> pyval outcome" where
  "get_vercel_projects w api_token = get_vercel_projects_loop w api_token VercelProjects [] None"

section \<open>The details of one Vercel project\<close>

text \<open>
  The second and the third \<^verbatim>\<open>try\<close> block of \<^verbatim>\<open>get_vercel_project_details\<close>:
  \<^verbatim>\<open>response.json().get(field, [])\<close>, or the empty list and a printed line when the request
  fails.
\<close>

definition fetch_list :: "world \<Rightarrow> request \<Rightarrow> string \<Rightarrow> msg \<Rightarrow> pyval outcome" where
  "fetch_list w rq field failure =
     (case http w rq of
        None \<Rightarrow> NoReply
      | Some (r, w1) \<Rightarrow>
          (case fetched r of
             None \<Rightarrow> Done (PList []) (prints w1 [failure])
           | Some body \<Rightarrow>
               (case py_get body field (PList []) of
                  Inl e \<Rightarrow> Crash e w1
                | Inr v \<Rightarrow> Done v w1)))"

definition get_vercel_project_details :: "world \<Rightarrow> string \<Rightarrow> pyval \<Rightarrow> pyval outcome" where
  "get_vercel_project_details w api_token project_id =
     (case http w (Get (VercelProject project_id) api_token) of
        None \<Rightarrow> NoReply
      | Some (r, w1) \<Rightarrow>
          (case fetched r of
             None \<Rightarrow> Done PNone (prints w1 [ErrorFetchingInfo project_id])
           | Some info \<Rightarrow>
               (case fetch_list w1 (Get (VercelProjectEnv project_id) api_token) ''envs''
                       (ErrorFetchingEnvVars project_id) of
                  NoReply \<Rightarrow> NoReply
                | Crash e w2 \<Rightarrow> Crash e w2
                | Done env_vars w2 \<Rightarrow>
                    (case fetch_list w2 (Get (VercelProjectDomains project_id) api_token)
                            ''domains'' (ErrorFetchingDomains project_id) of
                       NoReply \<Rightarrow> NoReply
                     | Crash e w3 \<Rightarrow> Crash e w3
                     | Done domains w3 \<Rightarrow>
                         Done (PDict [(PStr ''info'', info), (PStr ''env_vars'', env_vars),
                                      (PStr ''domains'', domains)]) w3))))"

section \<open>Creating the Cloudflare Pages project\<close>

text \<open>
  The handler of the API call. In this function \<^verbatim>\<open>response\<close> is bound only by the
  \<^verbatim>\<open>requests.post\<close> of the same \<^verbatim>\<open>try\<close> block.
\<close>

definition create_handler ::
  "world \<Rightarrow> pyval \<Rightarrow> (nat \<times> pyval option) option \<Rightarrow> pyval outcome" where
  "create_handler w project_name response =
     (case response of
        None \<Rightarrow> Crash UnboundLocalError (prints w [ErrorCreating project_name])
      | Some (st, body) \<Rightarrow>
          Done PNone
            (prints w [ErrorCreating project_name, ResponseStatus st, ResponseText body]))"

text \<open>The lines of the \<^verbatim>\<open>try\<close> block after \<^verbatim>\<open>result = response.json()\<close>.\<close>

definition report_created :: "world \<Rightarrow> pyval \<Rightarrow> pyval outcome" where
  "report_created w result =
     (case bind_py (py_get result ''result'' (PDict [])) (\<lambda>r. py_get r ''name'' PNone) of
        Inl e \<Rightarrow> Crash e w
      | Inr created_name \<Rightarrow>
          (case bind_py (py_get result ''result'' (PDict []))
                  (\<lambda>r. py_get r ''subdomain'' PNone) of
             Inl e \<Rightarrow> Crash e (prints w [SuccessfullyCreated created_name])
           | Inr subdomain \<Rightarrow>
               (case py_get result ''result'' PNone of
                  Inl e \<Rightarrow> Crash e (prints w [SuccessfullyCreated created_name, Subdomain subdomain])
                | Inr r \<Rightarrow>
                    Done r (prints w [SuccessfullyCreated created_name, Subdomain subdomain]))))"

definition create_cloudflare_pages_project ::
  "world \<Rightarrow> string \<Rightarrow> string \<Rightarrow> pyval \<Rightarrow> pyval outcome" where
  "create_cloudflare_pages_project w cf_api_token cf_account_id vercel_project_details =
     (case prepare_payload vercel_project_details of
        Inl e \<Rightarrow> Crash e w
      | Inr MissingName \<Rightarrow> Done PNone (prints w [SkippingMissingName])
      | Inr (NotGithub project_name) \<Rightarrow>
          Done PNone (prints w [SkippingNotGithub project_name, PagesSupportsGitOrUpload,
                                ManualMigrationNeeded])
      | Inr (Payload project_name payload) \<Rightarrow>
          (case http (prints w [AttemptingToCreate project_name])
                  (Post (CloudflarePagesProjects cf_account_id) cf_api_token payload) of
             None \<Rightarrow> NoReply
           | Some (ConnectionFailed, w1) \<Rightarrow> create_handler w1 project_name None
           | Some (Response st body, w1) \<Rightarrow>
               if http_error st then create_handler w1 project_name (Some (st, body))
               else
                 (case body of
                    None \<Rightarrow> create_handler w1 project_name (Some (st, body))
                  | Some result \<Rightarrow> report_created w1 result)))"

section \<open>The command line program\<close>

record args =
  arg_vercel_token :: string
  arg_cf_token :: string
  arg_cf_account_id :: string
  arg_project_id :: "string option"

text \<open>
  The test of the bulk loop,
  \<^verbatim>\<open>project_details.get('info', {}).get('link', {}).get('type') == 'github'\<close>.
\<close>

definition github_linked :: "pyval \<Rightarrow> py_exn + bool" where
  "github_linked project_details =
     bind_py (py_get project_details ''info'' (PDict [])) (\<lambda>info.
     bind_py (py_get info ''link'' (PDict [])) (\<lambda>link.
     bind_py (py_get link ''type'' PNone) (\<lambda>t. Inr (t = PStr ''github''))))"

text \<open>The body of the loop \<^verbatim>\<open>for project in vercel_projects\<close>.\<close>

definition process_project :: "world \<Rightarrow> args \<Rightarrow> pyval \<Rightarrow> unit outcome" where
  "process_project w a project =
     (case bind_py (py_get project ''id'' PNone)
             (\<lambda>i. bind_py (py_get project ''name'' PNone) (\<lambda>n. Inr (i, n))) of
        Inl e \<Rightarrow> Crash e w
      | Inr (project_id, project_name) \<Rightarrow>
          if \<not> truthy project_id
          then Done () (prints w [ProcessingProject project_name project_id, SkippingMissingId])
          else
            (case get_vercel_project_details
                    (prints w [ProcessingProject project_name project_id])
                    (arg_vercel_token a) project_id of
               NoReply \<Rightarrow> NoReply
             | Crash e w1 \<Rightarrow> Crash e w1
             | Done project_details w1 \<Rightarrow>
                 if truthy project_details then
                   (case github_linked project_details of
                      Inl e \<Rightarrow> Crash e w1
                    | Inr True \<Rightarrow>
                        (case create_cloudflare_pages_project w1 (arg_cf_token a)
                                (arg_cf_account_id a) project_details of
                           NoReply \<Rightarrow> NoReply
                         | Crash e w2 \<Rightarrow> Crash e w2
                         | Done created w2 \<Rightarrow> Done () w2)
                    | Inr False \<Rightarrow>
                        Done () (prints w1 [SkippingAutomaticMigration project_name,
                                            ManualMigrationMightBeRequired]))
                 else Done () (prints w1 [SkippingFailedDetails project_name])))"

fun process_projects :: "world \<Rightarrow> args \<Rightarrow> pyval list \<Rightarrow> unit outcome" where
  "process_projects w a [] = Done () w"
| "process_projects w a (project # rest) =
     (case process_project w a project of
        NoReply \<Rightarrow> NoReply
      | Crash e w1 \<Rightarrow> Crash e w1
      | Done u w1 \<Rightarrow> process_projects w1 a rest)"

definition main :: "world \<Rightarrow> args \<Rightarrow> unit outcome" where
  "main w a =
     (if arg_project_id a \<noteq> None \<and> arg_project_id a \<noteq> Some []
      then
        (case get_vercel_project_details
                (prints w [FetchingProjects, FetchingSpecific (the (arg_project_id a))])
                (arg_vercel_token a) (PStr (the (arg_project_id a))) of
           NoReply \<Rightarrow> NoReply
         | Crash e w1 \<Rightarrow> Crash e w1
         | Done project_details w1 \<Rightarrow>
             if truthy project_details then
               (case create_cloudflare_pages_project w1 (arg_cf_token a)
                       (arg_cf_account_id a) project_details of
                  NoReply \<Rightarrow> NoReply
                | Crash e w2 \<Rightarrow> Crash e w2
                | Done created w2 \<Rightarrow> Done () (prints w2 [MigrationFinished]))
             else
               Done () (prints w1 [CouldNotFetchDetails (the (arg_project_id a)),
                                   MigrationFinished]))
      else
        (case get_vercel_projects (prints w [FetchingProjects]) (arg_vercel_token a) of
           NoReply \<Rightarrow> NoReply
         | Crash e w1 \<Rightarrow> Crash e w1
         | Done vercel_projects w1 \<Rightarrow>
             if \<not> truthy vercel_projects then Done () (prints w1 [FailedOrNoProjects])
             else
               (case py_iter vercel_projects of
                  Inl e \<Rightarrow> Crash e w1
                | Inr projects \<Rightarrow>
                    (case process_projects (prints w1 [FoundProjects (length projects)]) a
                            projects of
                       NoReply \<Rightarrow> NoReply
                     | Crash e w2 \<Rightarrow> Crash e w2
                     | Done u w2 \<Rightarrow> Done () (prints w2 [MigrationFinished])))))"

section \<open>Reading a payload, and the shape of the inputs\<close>

text \<open>The chain of subscripts \<^verbatim>\<open>v[k1][k2]...\<close>; \<open>None\<close> where Python raises.\<close>

fun py_path :: "pyval \<Rightarrow> string list \<Rightarrow> pyval option" where
  "py_path v [] = Some v"
| "py_path v (k # ks) =
     (case v of
        PDict kvs \<Rightarrow> (case map_of kvs (PStr k) of None \<Rightarrow> None | Some v' \<Rightarrow> py_path v' ks)
      | _ \<Rightarrow> None)"

text \<open>
  An environment variable as Vercel documents it: an object whose \<^verbatim>\<open>target\<close>, when present,
  is a list, and whose \<^verbatim>\<open>key\<close> and \<^verbatim>\<open>value\<close>, when present, are strings or \<^verbatim>\<open>null\<close>.
\<close>

definition str_or_none :: "pyval \<Rightarrow> bool" where
  "str_or_none v = (case v of PNone \<Rightarrow> True | PStr _ \<Rightarrow> True | _ \<Rightarrow> False)"

definition env_var_shaped :: "pyval \<Rightarrow> bool" where
  "env_var_shaped var =
     (case var of
        PDict kvs \<Rightarrow>
          (case dict_get kvs ''target'' (PList []) of PList _ \<Rightarrow> True | _ \<Rightarrow> False) \<and>
          str_or_none (dict_get kvs ''key'' PNone) \<and>
          str_or_none (dict_get kvs ''value'' PNone)
      | _ \<Rightarrow> False)"

text \<open>
  The fan-out of the environment variables in the words of the specification, one scope
  at a time: a variable contributes nothing unless its key and its value are both
  non-empty; if the scope is among its scopes it sets \<open>map[key] = value\<close>; the variables
  are taken in order, so a later one overwrites an earlier one with the same key.
\<close>

definition spec_env_step ::
  "string \<Rightarrow> pyval \<Rightarrow> (pyval \<rightharpoonup> pyval) \<Rightarrow> (pyval \<rightharpoonup> pyval)" where
  "spec_env_step scope var m =
     (case var of
        PDict kvs \<Rightarrow>
          (if dict_get kvs ''key'' PNone \<notin> {PNone, PStr []} \<and>
              dict_get kvs ''value'' PNone \<notin> {PNone, PStr []} \<and>
              (case dict_get kvs ''target'' (PList []) of
                 PList scopes \<Rightarrow> PStr scope \<in> set scopes
               | _ \<Rightarrow> False)
           then m(dict_get kvs ''key'' PNone \<mapsto> dict_get kvs ''value'' PNone)
           else m)
      | _ \<Rightarrow> m)"

definition spec_env_fold :: "string \<Rightarrow> pyval list \<Rightarrow> (pyval \<rightharpoonup> pyval)" where
  "spec_env_fold scope vars = fold (spec_env_step scope) vars Map.empty"

text \<open>
  The answers of Vercel as section 6 of its interface gives them: the body of the
  environment request is an object whose \<^verbatim>\<open>envs\<close>, when present, is a list, and likewise
  \<^verbatim>\<open>domains\<close>.
\<close>

definition list_field_body :: "string \<Rightarrow> pyval \<Rightarrow> bool" where
  "list_field_body field body =
     (case body of
        PDict kvs \<Rightarrow> (case dict_get kvs field (PList []) of PList _ \<Rightarrow> True | _ \<Rightarrow> False)
      | _ \<Rightarrow> False)"

text \<open>
  A reply that is a page of the project list: the request succeeds, the body is an object
  whose \<^verbatim>\<open>projects\<close> is a list (or absent) and whose \<^verbatim>\<open>pagination\<close> is an object (or
  absent). The page gives its projects and its cursor \<^verbatim>\<open>next\<close>; a page with a truthy cursor
  has a successor.
\<close>

definition page_projects :: "reply \<Rightarrow> (pyval list \<times> pyval) option" where
  "page_projects r =
     (case fetched r of
        Some (PDict b) \<Rightarrow>
          (case (dict_get b ''projects'' (PList []), dict_get b ''pagination'' (PDict [])) of
             (PList ps, PDict pg) \<Rightarrow> Some (ps, dict_get pg ''next'' PNone)
           | _ \<Rightarrow> None)
      | _ \<Rightarrow> None)"

definition continuing :: "reply \<Rightarrow> bool" where
  "continuing r = (case page_projects r of Some (ps, c) \<Rightarrow> truthy c | None \<Rightarrow> False)"

definition page_of :: "reply \<Rightarrow> pyval list" where
  "page_of r = (case page_projects r of Some (ps, c) \<Rightarrow> ps | None \<Rightarrow> [])"

text \<open>The world at the start of a run, with the replies that the platforms will give.\<close>

definition start :: "reply list \<Rightarrow> world" where
  "start rs = \<lparr>replies = rs, sent = [], printed = []\<rparr>"

text \<open>
  The line that the bulk loop prints when it takes up a project, as a way to observe which
  projects a run has processed.
\<close>

definition is_processing :: "msg \<Rightarrow> bool" where
  "is_processing m = (case m of ProcessingProject n i \<Rightarrow> True | _ \<Rightarrow> False)"

definition processing_line :: "pyval \<Rightarrow> msg" where
  "processing_line project =
     (case project of
        PDict pj \<Rightarrow> ProcessingProject (dict_get pj ''name'' PNone) (dict_get pj ''id'' PNone)
      | _ \<Rightarrow> ProcessingProject PNone PNone)"

text \<open>
  A request fails, in the words of the error taxonomy of the specification (network or HTTP
  level): no response arrives, or the response has an error status (400 to 599), or its
  body is not JSON.
\<close>

definition request_failed :: "reply \<Rightarrow> bool" where
  "request_failed r =
     (case r of
        ConnectionFailed \<Rightarrow> True
      | Response st body \<Rightarrow> 400 \<le> st \<and> st < 600 \<or> body = None)"

text \<open>
  A reply to one of the two secondary requests that follows the interface: it is a
  failure, or its body is an object whose list field is a list (or is absent). The list
  that the detail is expected to carry for such a reply: the empty list for a failure, the
  list of the body otherwise.
\<close>

definition schema_reply :: "string \<Rightarrow> reply \<Rightarrow> bool" where
  "schema_reply field r =
     (request_failed r \<or>
      (case r of Response st (Some body) \<Rightarrow> list_field_body field body | _ \<Rightarrow> False))"

definition expected_list :: "string \<Rightarrow> reply \<Rightarrow> pyval list" where
  "expected_list field r =
     (case r of
        Response st (Some (PDict b)) \<Rightarrow>
          (if 400 \<le> st \<and> st < 600 then []
           else (case dict_get b field (PList []) of PList xs \<Rightarrow> xs | _ \<Rightarrow> []))
      | _ \<Rightarrow> [])"

text \<open>
  The world expected after the three requests for the details of a project whose core info
  arrived: three replies are used, three requests are made, and a line is printed for each
  secondary request that failed.
\<close>

definition expected_details_world ::
  "world \<Rightarrow> string \<Rightarrow> pyval \<Rightarrow> reply \<Rightarrow> reply \<Rightarrow> reply list \<Rightarrow> world" where
  "expected_details_world w api_token project_id r2 r3 rest =
     w\<lparr>replies := rest,
       sent := sent w @ [Get (VercelProject project_id) api_token,
                         Get (VercelProjectEnv project_id) api_token,
                         Get (VercelProjectDomains project_id) api_token],
       printed := printed w @
         (if request_failed r2 then [ErrorFetchingEnvVars project_id] else []) @
         (if request_failed r3 then [ErrorFetchingDomains project_id] else [])\<rparr>"

section \<open>Example inputs\<close>

definition example_env_vars :: "pyval list" where
  "example_env_vars =
     [PDict [(PStr ''key'', PStr ''API_URL''), (PStr ''value'', PStr ''https://a.example''),
             (PStr ''target'', PList [PStr ''production'', PStr ''preview'']),
             (PStr ''type'', PStr ''plain'')],
      PDict [(PStr ''key'', PStr ''DEBUG''), (PStr ''value'', PStr ''1''),
             (PStr ''target'', PList [PStr ''development'']), (PStr ''type'', PStr ''plain'')],
      PDict [(PStr ''key'', PStr ''TOKEN''), (PStr ''value'', PStr []),
             (PStr ''target'', PList [PStr ''production'']), (PStr ''type'', PStr ''secret'')],
      PDict [(PStr ''key'', PStr ''API_URL''), (PStr ''value'', PStr ''https://b.example''),
             (PStr ''target'', PList [PStr ''production'']), (PStr ''type'', PStr ''plain'')]]"

definition example_link :: "(pyval \<times> pyval) list" where
  "example_link =
     [(PStr ''type'', PStr ''github''), (PStr ''org'', PStr ''acme''),
      (PStr ''owner'', PStr ''alice''), (PStr ''repo'', PStr ''site'')]"

definition example_info :: "(pyval \<times> pyval) list" where
  "example_info =
     [(PStr ''name'', PStr ''site''), (PStr ''buildCommand'', PStr ''npm run build''),
      (PStr ''outputDirectory'', PStr []), (PStr ''link'', PDict example_link)]"

definition example_details :: "(pyval \<times> pyval) list" where
  "example_details =
     [(PStr ''info'', PDict example_info), (PStr ''env_vars'', PList example_env_vars),
      (PStr ''domains'', PList [])]"

definition example_payload :: pyval where
  "example_payload = PDict [
     (PStr ''name'', PStr ''site''),
     (PStr ''production_branch'', PStr ''main''),
     (PStr ''build_config'', PDict [
        (PStr ''build_command'', PStr ''npm run build''),
        (PStr ''output_dir'', PStr []),
        (PStr ''root_dir'', PStr ''/''),
        (PStr ''web_analytics_tag'', PNone),
        (PStr ''web_analytics_token'', PNone)]),
     (PStr ''source'', PDict [
        (PStr ''type'', PStr ''github''),
        (PStr ''config'', PDict [
           (PStr ''owner'', PStr ''acme''),
           (PStr ''repo_name'', PStr ''site''),
           (PStr ''production_branch'', PStr ''main''),
           (PStr ''pr_comments_enabled'', PBool True),
           (PStr ''deployments_enabled'', PBool True)])]),
     (PStr ''deployment_configs'', PDict [
        (PStr ''preview'', PDict [(PStr ''environment_variables'', PDict [
           (PStr ''API_URL'', PStr ''https://a.example'')])]),
        (PStr ''production'', PDict [(PStr ''environment_variables'', PDict [
           (PStr ''API_URL'', PStr ''https://b.example'')])])])]"

definition example_unnamed_details :: "(pyval \<times> pyval) list" where
  "example_unnamed_details =
     [(PStr ''info'', PDict [(PStr ''name'', PStr []), (PStr ''link'', PDict example_link)]),
      (PStr ''env_vars'', PList example_env_vars), (PStr ''domains'', PList [])]"

definition example_unlinked_details :: "(pyval \<times> pyval) list" where
  "example_unlinked_details =
     [(PStr ''info'', PDict [(PStr ''name'', PStr ''blog'')]),
      (PStr ''env_vars'', PList []), (PStr ''domains'', PList [])]"

definition example_bulk_args :: args where
  "example_bulk_args =
     \<lparr>arg_vercel_token = ''vt'', arg_cf_token = ''ct'', arg_cf_account_id = ''acct'',
      arg_project_id = None\<rparr>"

definition example_string_link_info :: "(pyval \<times> pyval) list" where
  "example_string_link_info =
     [(PStr ''name'', PStr ''site''), (PStr ''link'', PStr ''https://github.com/acme/site'')]"

definition example_string_link_run :: "reply list" where
  "example_string_link_run =
     [Response 200 (Some (PDict [(PStr ''projects'',
         PList [PDict [(PStr ''id'', PStr ''prj_1''), (PStr ''name'', PStr ''site'')]])])),
      Response 200 (Some (PDict example_string_link_info)),
      Response 200 (Some (PDict [(PStr ''envs'', PList [])])),
      Response 200 (Some (PDict [(PStr ''domains'', PList [])]))]"

definition example_abort_run :: "reply list" where
  "example_abort_run =
     [Response 200 (Some (PDict [(PStr ''projects'',
         PList [PDict [(PStr ''id'', PStr ''prj_4''), (PStr ''name'', PStr ''site'')],
                PDict [(PStr ''id'', PStr ''prj_5''), (PStr ''name'', PStr ''site'')]])])),
      Response 200 (Some (PDict example_info)),
      Response 200 (Some (PDict [(PStr ''envs'', PList example_env_vars)])),
      Response 200 (Some (PDict [(PStr ''domains'', PList [])])),
      ConnectionFailed,
      Response 200 (Some (PDict example_info)),
      Response 200 (Some (PDict [(PStr ''envs'', PList example_env_vars)])),
      Response 200 (Some (PDict [(PStr ''domains'', PList [])])),
      Response 200 (Some (PDict [(PStr ''result'',
         PDict [(PStr ''name'', PStr ''site''), (PStr ''subdomain'', PStr ''site.pages.dev'')])]))]"

definition example_blog_summary :: "(pyval \<times> pyval) list" where
  "example_blog_summary = [(PStr ''id'', PStr ''prj_3''), (PStr ''name'', PStr ''blog'')]"

definition example_blog_run :: "reply list" where
  "example_blog_run =
     [Response 200 (Some (PDict [(PStr ''name'', PStr ''blog'')])),
      Response 200 (Some (PDict [(PStr ''envs'', PList [])])),
      Response 200 (Some (PDict [(PStr ''domains'', PList [])]))]"

definition example_blog_fetched :: world where
  "example_blog_fetched =
     \<lparr>replies = [],
        sent = [Get (VercelProject (PStr ''prj_3'')) ''vt'',
                Get (VercelProjectEnv (PStr ''prj_3'')) ''vt'',
                Get (VercelProjectDomains (PStr ''prj_3'')) ''vt''],
        printed = [ProcessingProject (PStr ''blog'') (PStr ''prj_3'')]\<rparr>"

definition example_nameless_info :: "(pyval \<times> pyval) list" where
  "example_nameless_info = [(PStr ''name'', PStr []), (PStr ''link'', PDict example_link)]"

definition example_summaries :: "pyval list" where
  "example_summaries =
     [PDict [(PStr ''name'', PStr ''noid'')],
      PDict [(PStr ''id'', PStr ''prj_2''), (PStr ''name'', PStr ''down'')],
      PDict [(PStr ''id'', PStr ''prj_3''), (PStr ''name'', PStr ''blog'')],
      PDict [(PStr ''id'', PStr ''prj_6''), (PStr ''name'', PStr ''ghost'')],
      PDict [(PStr ''id'', PStr ''prj_4''), (PStr ''name'', PStr ''site'')],
      PDict [(PStr ''id'', PStr ''prj_5''), (PStr ''name'', PStr ''site'')]]"

definition example_run :: "reply list" where
  "example_run =
     [Response 200 (Some (PDict [(PStr ''projects'', PList example_summaries),
                                 (PStr ''pagination'', PDict [])])),
      Response 500 (Some (PDict [(PStr ''error'', PStr ''down'')])),
      Response 200 (Some (PDict [(PStr ''name'', PStr ''blog'')])),
      Response 200 (Some (PDict [(PStr ''envs'', PList [])])),
      Response 200 (Some (PDict [(PStr ''domains'', PList [])])),
      Response 200 (Some (PDict example_nameless_info)),
      Response 200 (Some (PDict [(PStr ''envs'', PList [])])),
      Response 200 (Some (PDict [(PStr ''domains'', PList [])])),
      Response 200 (Some (PDict example_info)),
      Response 200 (Some (PDict [(PStr ''envs'', PList example_env_vars)])),
      ConnectionFailed,
      Response 422 None,
      Response 200 (Some (PDict example_info)),
      Response 200 (Some (PDict [(PStr ''envs'', PList example_env_vars)])),
      Response 200 (Some (PDict [(PStr ''domains'', PList [])])),
      Response 200 (Some (PDict [(PStr ''result'',
         PDict [(PStr ''name'', PStr ''site''), (PStr ''subdomain'', PStr ''site.pages.dev'')])]))]"

definition example_listed :: world where
  "example_listed =
     \<lparr>replies = tl example_run, sent = [Get VercelProjects ''vt''],
        printed = [FetchingProjects]\<rparr>"

definition example_run_end :: world where
  "example_run_end =
       \<lparr>replies = [],
          sent = [Get VercelProjects ''vt'',
                  Get (VercelProject (PStr ''prj_2'')) ''vt'',
                  Get (VercelProject (PStr ''prj_3'')) ''vt'',
                  Get (VercelProjectEnv (PStr ''prj_3'')) ''vt'',
                  Get (VercelProjectDomains (PStr ''prj_3'')) ''vt'',
                  Get (VercelProject (PStr ''prj_6'')) ''vt'',
                  Get (VercelProjectEnv (PStr ''prj_6'')) ''vt'',
                  Get (VercelProjectDomains (PStr ''prj_6'')) ''vt'',
                  Get (VercelProject (PStr ''prj_4'')) ''vt'',
                  Get (VercelProjectEnv (PStr ''prj_4'')) ''vt'',
                  Get (VercelProjectDomains (PStr ''prj_4'')) ''vt'',
                  Post (CloudflarePagesProjects ''acct'') ''ct'' example_payload,
                  Get (VercelProject (PStr ''prj_5'')) ''vt'',
                  Get (VercelProjectEnv (PStr ''prj_5'')) ''vt'',
                  Get (VercelProjectDomains (PStr ''prj_5'')) ''vt'',
                  Post (CloudflarePagesProjects ''acct'') ''ct'' example_payload],
          printed = [FetchingProjects, FoundProjects 6,
                     ProcessingProject (PStr ''noid'') PNone, SkippingMissingId,
                     ProcessingProject (PStr ''down'') (PStr ''prj_2''),
                     ErrorFetchingInfo (PStr ''prj_2''), SkippingFailedDetails (PStr ''down''),
                     ProcessingProject (PStr ''blog'') (PStr ''prj_3''),
                     SkippingAutomaticMigration (PStr ''blog''), ManualMigrationMightBeRequired,
                     ProcessingProject (PStr ''ghost'') (PStr ''prj_6''), SkippingMissingName,
                     ProcessingProject (PStr ''site'') (PStr ''prj_4''),
                     ErrorFetchingDomains (PStr ''prj_4''),
                     AttemptingToCreate (PStr ''site''), ErrorCreating (PStr ''site''),
                     ResponseStatus 422, ResponseText None,
                     ProcessingProject (PStr ''site'') (PStr ''prj_5''),
                     AttemptingToCreate (PStr ''site''),
                     SuccessfullyCreated (PStr ''site''), Subdomain (PStr ''site.pages.dev'')]\<rparr>"

definition example_ghost_summary :: "(pyval \<times> pyval) list" where
  "example_ghost_summary = [(PStr ''id'', PStr ''prj_6''), (PStr ''name'', PStr ''ghost'')]"

definition example_site_summary :: "(pyval \<times> pyval) list" where
  "example_site_summary = [(PStr ''id'', PStr ''prj_4''), (PStr ''name'', PStr ''site'')]"

definition example_down_summary :: "(pyval \<times> pyval) list" where
  "example_down_summary = [(PStr ''id'', PStr ''prj_2''), (PStr ''name'', PStr ''down'')]"

section \<open>Python values: basic facts\<close>

lemma py_get_PDict [simp]: "py_get (PDict kvs) k dflt = Inr (dict_get kvs k dflt)"
  by (simp add: py_get_def)

lemma bind_py_Inr [simp]: "bind_py (Inr x) f = f x"
  by (simp add: bind_py_def)

lemma bind_py_Inl [simp]: "bind_py (Inl e) f = Inl e"
  by (simp add: bind_py_def)

lemma py_key_eq_PStr [simp]: "py_key_eq k' (PStr k) \<longleftrightarrow> k' = PStr k"
  by (simp add: py_key_eq_def split: pyval.splits)

lemma map_of_dict_update: "map_of (dict_update kvs (PStr k) v) = (map_of kvs)(PStr k \<mapsto> v)"
  by (induction kvs) auto

lemma keys_dict_update:
  "map fst (dict_update kvs (PStr k) v) =
     (if PStr k \<in> fst ` set kvs then map fst kvs else map fst kvs @ [PStr k])"
  by (induction kvs) (force+)

lemma distinct_dict_update:
  "distinct (map fst kvs) \<Longrightarrow> distinct (map fst (dict_update kvs (PStr k) v))"
  by (simp add: keys_dict_update)

section \<open>The payload of an eligible project\<close>

lemma env_var_shaped_cases:
  assumes "env_var_shaped var"
  obtains kvs ts where "var = PDict kvs" "dict_get kvs ''target'' (PList []) = PList ts"
    "dict_get kvs ''key'' PNone = PNone \<or> (\<exists>k. dict_get kvs ''key'' PNone = PStr k)"
    "dict_get kvs ''value'' PNone = PNone \<or> (\<exists>v. dict_get kvs ''value'' PNone = PStr v)"
  using assms unfolding env_var_shaped_def str_or_none_def
  by (auto split: pyval.splits)

lemma env_var_step_spec:
  assumes "env_var_shaped var"
  shows "\<exists>pr pe. env_var_step var (pr0, pe0) = Inr (pr, pe) \<and>
           map_of pr = spec_env_step ''production'' var (map_of pr0) \<and>
           map_of pe = spec_env_step ''preview'' var (map_of pe0) \<and>
           (distinct (map fst pr0) \<longrightarrow> distinct (map fst pr)) \<and>
           (distinct (map fst pe0) \<longrightarrow> distinct (map fst pe))"
  using assms
proof (cases rule: env_var_shaped_cases)
  case (1 kvs ts)
  then show ?thesis
    by (auto simp: env_var_step_def py_in_def dict_setitem_def hashable_def spec_env_step_def
        map_of_dict_update distinct_dict_update)
qed

lemma env_var_loop_spec:
  assumes "list_all env_var_shaped vars"
  shows "\<exists>pr pe. env_var_loop vars acc = Inr (pr, pe) \<and>
           map_of pr = fold (spec_env_step ''production'') vars (map_of (fst acc)) \<and>
           map_of pe = fold (spec_env_step ''preview'') vars (map_of (snd acc)) \<and>
           (distinct (map fst (fst acc)) \<longrightarrow> distinct (map fst pr)) \<and>
           (distinct (map fst (snd acc)) \<longrightarrow> distinct (map fst pe))"
  using assms
proof (induction vars arbitrary: acc)
  case Nil
  then show ?case by (cases acc) simp
next
  case (Cons var vars)
  from Cons.prems have "env_var_shaped var" by simp
  from env_var_step_spec[OF this, of "fst acc" "snd acc"] obtain pr pe where
    step: "env_var_step var acc = Inr (pr, pe)"
      "map_of pr = spec_env_step ''production'' var (map_of (fst acc))"
      "map_of pe = spec_env_step ''preview'' var (map_of (snd acc))"
      "distinct (map fst (fst acc)) \<longrightarrow> distinct (map fst pr)"
      "distinct (map fst (snd acc)) \<longrightarrow> distinct (map fst pe)"
    by auto
  from Cons.prems have "list_all env_var_shaped vars" by simp
  from Cons.IH[OF this, of "(pr, pe)"] obtain pr' pe' where
    rest: "env_var_loop vars (pr, pe) = Inr (pr', pe')"
      "map_of pr' = fold (spec_env_step ''production'') vars (map_of pr)"
      "map_of pe' = fold (spec_env_step ''preview'') vars (map_of pe)"
      "distinct (map fst pr) \<longrightarrow> distinct (map fst pr')"
      "distinct (map fst pe) \<longrightarrow> distinct (map fst pe')"
    by auto
  show ?case
    using step rest by simp
qed

text \<open>
  With a non-empty name, a link of type \<^verbatim>\<open>github\<close> and a loop over the environment
  variables that raises nothing, the function reaches the API call with this payload.
\<close>

lemma prepare_payload_eligible:
  assumes "dict_get d ''info'' (PDict []) = PDict info"
    and "truthy (dict_get info ''name'' PNone)"
    and "dict_get info ''link'' PNone = PDict link"
    and "dict_get link ''type'' PNone = PStr ''github''"
    and "dict_get d ''env_vars'' (PList []) = PList vars"
    and "env_var_loop vars ([], []) = Inr envs"
  shows "prepare_payload (PDict d) =
           Inr (Payload (dict_get info ''name'' PNone) (PDict [
             (PStr ''name'', dict_get info ''name'' PNone),
             (PStr ''production_branch'',
                py_or (dict_get info ''productionBranch'' PNone) (PStr ''main'')),
             (PStr ''build_config'', PDict [
                (PStr ''build_command'', dict_get info ''buildCommand'' PNone),
                (PStr ''output_dir'', dict_get info ''outputDirectory'' PNone),
                (PStr ''root_dir'', py_or (dict_get info ''rootDirectory'' PNone) (PStr ''/'')),
                (PStr ''web_analytics_tag'', PNone),
                (PStr ''web_analytics_token'', PNone)]),
             (PStr ''source'', PDict [
                (PStr ''type'', PStr ''github''),
                (PStr ''config'', PDict [
                   (PStr ''owner'', dict_get link ''org'' PNone),
                   (PStr ''repo_name'', dict_get link ''repo'' PNone),
                   (PStr ''production_branch'',
                      py_or (dict_get info ''productionBranch'' PNone) (PStr ''main'')),
                   (PStr ''pr_comments_enabled'', PBool True),
                   (PStr ''deployments_enabled'', PBool True)])]),
             (PStr ''deployment_configs'', PDict [
                (PStr ''preview'', PDict [(PStr ''environment_variables'', PDict (snd envs))]),
                (PStr ''production'', PDict [
                   (PStr ''environment_variables'', PDict (fst envs))])])]))"
proof -
  have ne: "link \<noteq> []" using assms(4) by (auto simp: dict_get_def)
  show ?thesis
    using assms ne
    by (simp add: prepare_payload_def not_github_def py_iter_def)
qed

lemma example_details_facts:
  "dict_get example_details ''info'' (PDict []) = PDict example_info"
  "truthy (dict_get example_info ''name'' PNone)"
  "dict_get example_info ''link'' PNone = PDict example_link"
  "dict_get example_link ''type'' PNone = PStr ''github''"
  "dict_get example_details ''env_vars'' (PList []) = PList example_env_vars"
  "list_all env_var_shaped example_env_vars"
  by (simp_all add: example_details_def example_info_def example_link_def
      example_env_vars_def dict_get_def env_var_shaped_def str_or_none_def)

text \<open>
  C1. For every project detail with a non-empty name and a GitHub link (and environment
  variables of the documented shape), the two environment maps of the payload are the
  in-order fold of the variables: a variable with an empty or missing key or value
  contributes nothing, a variable whose scopes contain \<^verbatim>\<open>production\<close> (\<^verbatim>\<open>preview\<close>) sets its
  key in the production (preview) map, so a variable with both scopes is in both maps and
  one scoped to \<^verbatim>\<open>development\<close> only is in neither, and of two variables with one key in
  one scope the later wins.
\<close>

theorem environment_maps_fold:
  assumes "dict_get d ''info'' (PDict []) = PDict info"
    and "truthy (dict_get info ''name'' PNone)"
    and "dict_get info ''link'' PNone = PDict link"
    and "dict_get link ''type'' PNone = PStr ''github''"
    and "dict_get d ''env_vars'' (PList []) = PList vars"
    and "list_all env_var_shaped vars"
  shows "\<exists>p production preview.
           prepare_payload (PDict d) = Inr (Payload (dict_get info ''name'' PNone) p) \<and>
           py_path p [''deployment_configs'', ''production'', ''environment_variables'']
             = Some (PDict production) \<and>
           py_path p [''deployment_configs'', ''preview'', ''environment_variables'']
             = Some (PDict preview) \<and>
           distinct (map fst production) \<and> distinct (map fst preview) \<and>
           map_of production = spec_env_fold ''production'' vars \<and>
           map_of preview = spec_env_fold ''preview'' vars"
proof -
  from env_var_loop_spec[OF assms(6), of "([], [])"] obtain pr pe where
    loop: "env_var_loop vars ([], []) = Inr (pr, pe)"
      "map_of pr = spec_env_fold ''production'' vars"
      "map_of pe = spec_env_fold ''preview'' vars"
      "distinct (map fst pr)" "distinct (map fst pe)"
    by (auto simp: spec_env_fold_def)
  from prepare_payload_eligible[OF assms(1-5) loop(1)] loop(2-5)
  show ?thesis by simp
qed

theorem environment_maps_fold_witness:
  "dict_get example_details ''info'' (PDict []) = PDict example_info \<and>
   truthy (dict_get example_info ''name'' PNone) \<and>
   dict_get example_info ''link'' PNone = PDict example_link \<and>
   dict_get example_link ''type'' PNone = PStr ''github'' \<and>
   dict_get example_details ''env_vars'' (PList []) = PList example_env_vars \<and>
   list_all env_var_shaped example_env_vars \<and>
   (\<exists>p production preview.
      prepare_payload (PDict example_details) = Inr (Payload (PStr ''site'') p) \<and>
      py_path p [''deployment_configs'', ''production'', ''environment_variables'']
        = Some (PDict production) \<and>
      py_path p [''deployment_configs'', ''preview'', ''environment_variables'']
        = Some (PDict preview) \<and>
      map_of production = spec_env_fold ''production'' example_env_vars \<and>
      map_of preview = spec_env_fold ''preview'' example_env_vars \<and>
      spec_env_fold ''production'' example_env_vars (PStr ''API_URL'')
        = Some (PStr ''https://b.example'') \<and>
      spec_env_fold ''preview'' example_env_vars (PStr ''API_URL'')
        = Some (PStr ''https://a.example'') \<and>
      spec_env_fold ''production'' example_env_vars (PStr ''DEBUG'') = None \<and>
      spec_env_fold ''preview'' example_env_vars (PStr ''DEBUG'') = None \<and>
      spec_env_fold ''production'' example_env_vars (PStr ''TOKEN'') = None)"
proof -
  have name: "dict_get example_info ''name'' PNone = PStr ''site''"
    by (simp add: example_info_def dict_get_def)
  have folds:
    "spec_env_fold ''production'' example_env_vars (PStr ''API_URL'')
       = Some (PStr ''https://b.example'')"
    "spec_env_fold ''preview'' example_env_vars (PStr ''API_URL'')
       = Some (PStr ''https://a.example'')"
    "spec_env_fold ''production'' example_env_vars (PStr ''DEBUG'') = None"
    "spec_env_fold ''preview'' example_env_vars (PStr ''DEBUG'') = None"
    "spec_env_fold ''production'' example_env_vars (PStr ''TOKEN'') = None"
    by (simp_all add: spec_env_fold_def spec_env_step_def example_env_vars_def dict_get_def)
  from environment_maps_fold[OF example_details_facts] name folds example_details_facts
  show ?thesis by auto
qed

lemma env_var_loop_total:
  "list_all env_var_shaped vars \<Longrightarrow> \<exists>envs. env_var_loop vars acc = Inr envs"
  using env_var_loop_spec[of vars acc] by auto

lemma prepare_payload_shaped:
  assumes "dict_get d ''info'' (PDict []) = PDict info"
    and "truthy (dict_get info ''name'' PNone)"
    and "dict_get info ''link'' PNone = PDict link"
    and "dict_get link ''type'' PNone = PStr ''github''"
    and "dict_get d ''env_vars'' (PList []) = PList vars"
    and "list_all env_var_shaped vars"
  shows "\<exists>envs. prepare_payload (PDict d) =
           Inr (Payload (dict_get info ''name'' PNone) (PDict [
             (PStr ''name'', dict_get info ''name'' PNone),
             (PStr ''production_branch'',
                py_or (dict_get info ''productionBranch'' PNone) (PStr ''main'')),
             (PStr ''build_config'', PDict [
                (PStr ''build_command'', dict_get info ''buildCommand'' PNone),
                (PStr ''output_dir'', dict_get info ''outputDirectory'' PNone),
                (PStr ''root_dir'', py_or (dict_get info ''rootDirectory'' PNone) (PStr ''/'')),
                (PStr ''web_analytics_tag'', PNone),
                (PStr ''web_analytics_token'', PNone)]),
             (PStr ''source'', PDict [
                (PStr ''type'', PStr ''github''),
                (PStr ''config'', PDict [
                   (PStr ''owner'', dict_get link ''org'' PNone),
                   (PStr ''repo_name'', dict_get link ''repo'' PNone),
                   (PStr ''production_branch'',
                      py_or (dict_get info ''productionBranch'' PNone) (PStr ''main'')),
                   (PStr ''pr_comments_enabled'', PBool True),
                   (PStr ''deployments_enabled'', PBool True)])]),
             (PStr ''deployment_configs'', PDict [
                (PStr ''preview'', PDict [(PStr ''environment_variables'', PDict (snd envs))]),
                (PStr ''production'', PDict [
                   (PStr ''environment_variables'', PDict (fst envs))])])]))"
proof -
  from env_var_loop_total[OF assms(6), of "([], [])"] obtain envs where
    "env_var_loop vars ([], []) = Inr envs" by blast
  from prepare_payload_eligible[OF assms(1-5) this] show ?thesis by blast
qed

lemma prepare_payload_example:
  "prepare_payload (PDict example_details) = Inr (Payload (PStr ''site'') example_payload)"
  by (simp add: prepare_payload_def example_details_def example_info_def example_link_def
      example_env_vars_def example_payload_def dict_get_def not_github_def py_iter_def
      env_var_step_def py_in_def dict_setitem_def hashable_def py_or_def)

lemma example_info_fields:
  "dict_get example_info ''name'' PNone = PStr ''site''"
  "dict_get example_info ''productionBranch'' PNone = PNone"
  "dict_get example_info ''rootDirectory'' PNone = PNone"
  "dict_get example_info ''buildCommand'' PNone = PStr ''npm run build''"
  "dict_get example_info ''outputDirectory'' PNone = PStr []"
  "dict_get example_link ''org'' PNone = PStr ''acme''"
  "dict_get example_link ''repo'' PNone = PStr ''site''"
  by (simp_all add: example_info_def example_link_def dict_get_def)

text \<open>
  C10. For every eligible detail with a non-empty name, the payload sets
  \<^verbatim>\<open>source.config.pr_comments_enabled\<close> and \<^verbatim>\<open>source.config.deployments_enabled\<close> to \<^verbatim>\<open>True\<close>
  and \<^verbatim>\<open>build_config.web_analytics_tag\<close> and \<^verbatim>\<open>build_config.web_analytics_token\<close> to
  \<^verbatim>\<open>None\<close>, whatever the project is.
\<close>

theorem payload_constants:
  assumes "dict_get d ''info'' (PDict []) = PDict info"
    and "truthy (dict_get info ''name'' PNone)"
    and "dict_get info ''link'' PNone = PDict link"
    and "dict_get link ''type'' PNone = PStr ''github''"
    and "dict_get d ''env_vars'' (PList []) = PList vars"
    and "list_all env_var_shaped vars"
  shows "\<exists>p. prepare_payload (PDict d) = Inr (Payload (dict_get info ''name'' PNone) p) \<and>
           py_path p [''source'', ''config'', ''pr_comments_enabled''] = Some (PBool True) \<and>
           py_path p [''source'', ''config'', ''deployments_enabled''] = Some (PBool True) \<and>
           py_path p [''build_config'', ''web_analytics_tag''] = Some PNone \<and>
           py_path p [''build_config'', ''web_analytics_token''] = Some PNone"
  using prepare_payload_shaped[OF assms] by auto

theorem payload_constants_witness:
  "dict_get example_details ''info'' (PDict []) = PDict example_info \<and>
   truthy (dict_get example_info ''name'' PNone) \<and>
   dict_get example_info ''link'' PNone = PDict example_link \<and>
   dict_get example_link ''type'' PNone = PStr ''github'' \<and>
   dict_get example_details ''env_vars'' (PList []) = PList example_env_vars \<and>
   list_all env_var_shaped example_env_vars \<and>
   (\<exists>p. prepare_payload (PDict example_details) = Inr (Payload (PStr ''site'') p) \<and>
      py_path p [''source'', ''config'', ''pr_comments_enabled''] = Some (PBool True) \<and>
      py_path p [''source'', ''config'', ''deployments_enabled''] = Some (PBool True) \<and>
      py_path p [''build_config'', ''web_analytics_tag''] = Some PNone \<and>
      py_path p [''build_config'', ''web_analytics_token''] = Some PNone)"
  using payload_constants[OF example_details_facts] example_details_facts
  by (simp add: example_info_fields)

text \<open>
  C5. For every eligible detail with a non-empty name: when \<^verbatim>\<open>productionBranch\<close> is absent
  or empty, the top-level \<^verbatim>\<open>production_branch\<close> and \<^verbatim>\<open>source.config.production_branch\<close> are
  both \<^verbatim>\<open>main\<close>; when \<^verbatim>\<open>rootDirectory\<close> is absent or empty, \<^verbatim>\<open>build_config.root_dir\<close> is \<^verbatim>\<open>/\<close>;
  \<^verbatim>\<open>buildCommand\<close> and \<^verbatim>\<open>outputDirectory\<close> go into the payload as they are (\<^verbatim>\<open>None\<close> when
  absent).
\<close>

theorem payload_defaults:
  assumes "dict_get d ''info'' (PDict []) = PDict info"
    and "truthy (dict_get info ''name'' PNone)"
    and "dict_get info ''link'' PNone = PDict link"
    and "dict_get link ''type'' PNone = PStr ''github''"
    and "dict_get d ''env_vars'' (PList []) = PList vars"
    and "list_all env_var_shaped vars"
  shows "\<exists>p. prepare_payload (PDict d) = Inr (Payload (dict_get info ''name'' PNone) p) \<and>
           (\<not> truthy (dict_get info ''productionBranch'' PNone) \<longrightarrow>
              py_path p [''production_branch''] = Some (PStr ''main'') \<and>
              py_path p [''source'', ''config'', ''production_branch''] = Some (PStr ''main'')) \<and>
           (\<not> truthy (dict_get info ''rootDirectory'' PNone) \<longrightarrow>
              py_path p [''build_config'', ''root_dir''] = Some (PStr ''/'')) \<and>
           py_path p [''build_config'', ''build_command'']
             = Some (dict_get info ''buildCommand'' PNone) \<and>
           py_path p [''build_config'', ''output_dir'']
             = Some (dict_get info ''outputDirectory'' PNone)"
  using prepare_payload_shaped[OF assms] by (auto simp: py_or_def)

theorem payload_defaults_witness:
  "dict_get example_details ''info'' (PDict []) = PDict example_info \<and>
   truthy (dict_get example_info ''name'' PNone) \<and>
   dict_get example_info ''link'' PNone = PDict example_link \<and>
   dict_get example_link ''type'' PNone = PStr ''github'' \<and>
   dict_get example_details ''env_vars'' (PList []) = PList example_env_vars \<and>
   list_all env_var_shaped example_env_vars \<and>
   \<not> truthy (dict_get example_info ''productionBranch'' PNone) \<and>
   \<not> truthy (dict_get example_info ''rootDirectory'' PNone) \<and>
   (\<exists>p. prepare_payload (PDict example_details) = Inr (Payload (PStr ''site'') p) \<and>
      py_path p [''production_branch''] = Some (PStr ''main'') \<and>
      py_path p [''source'', ''config'', ''production_branch''] = Some (PStr ''main'') \<and>
      py_path p [''build_config'', ''root_dir''] = Some (PStr ''/'') \<and>
      py_path p [''build_config'', ''build_command''] = Some (PStr ''npm run build'') \<and>
      py_path p [''build_config'', ''output_dir''] = Some (PStr []))"
  using payload_defaults[OF example_details_facts] example_details_facts
  by (simp add: example_info_fields)

text \<open>
  C4, as the code has it. For every eligible detail with a non-empty name, the \<^verbatim>\<open>source\<close>
  of the payload has type \<^verbatim>\<open>github\<close>, and its \<^verbatim>\<open>config\<close> has the \<^verbatim>\<open>owner\<close> read from
  \<^verbatim>\<open>link.org\<close>, the \<^verbatim>\<open>repo_name\<close> read from \<^verbatim>\<open>link.repo\<close>, and the production branch,
  \<^verbatim>\<open>main\<close> when the project has none.
\<close>

theorem payload_source:
  assumes "dict_get d ''info'' (PDict []) = PDict info"
    and "truthy (dict_get info ''name'' PNone)"
    and "dict_get info ''link'' PNone = PDict link"
    and "dict_get link ''type'' PNone = PStr ''github''"
    and "dict_get d ''env_vars'' (PList []) = PList vars"
    and "list_all env_var_shaped vars"
  shows "\<exists>p. prepare_payload (PDict d) = Inr (Payload (dict_get info ''name'' PNone) p) \<and>
           py_path p [''source'', ''type''] = Some (PStr ''github'') \<and>
           py_path p [''source'', ''config'', ''owner''] = Some (dict_get link ''org'' PNone) \<and>
           py_path p [''source'', ''config'', ''repo_name'']
             = Some (dict_get link ''repo'' PNone) \<and>
           py_path p [''source'', ''config'', ''production_branch'']
             = Some (py_or (dict_get info ''productionBranch'' PNone) (PStr ''main''))"
  using prepare_payload_shaped[OF assms] by auto

theorem payload_source_witness:
  "dict_get example_details ''info'' (PDict []) = PDict example_info \<and>
   truthy (dict_get example_info ''name'' PNone) \<and>
   dict_get example_info ''link'' PNone = PDict example_link \<and>
   dict_get example_link ''type'' PNone = PStr ''github'' \<and>
   dict_get example_details ''env_vars'' (PList []) = PList example_env_vars \<and>
   list_all env_var_shaped example_env_vars \<and>
   (\<exists>p. prepare_payload (PDict example_details) = Inr (Payload (PStr ''site'') p) \<and>
      py_path p [''source'', ''type''] = Some (PStr ''github'') \<and>
      py_path p [''source'', ''config'', ''owner''] = Some (PStr ''acme'') \<and>
      py_path p [''source'', ''config'', ''repo_name''] = Some (PStr ''site'') \<and>
      py_path p [''source'', ''config'', ''production_branch''] = Some (PStr ''main''))"
  using payload_source[OF example_details_facts] example_details_facts
  by (simp add: example_info_fields py_or_def)

text \<open>
  The claim as the specification words it fails on this project: its link has type
  \<^verbatim>\<open>github\<close>, owner \<^verbatim>\<open>alice\<close> and organisation \<^verbatim>\<open>acme\<close>; the source of the payload has
  type \<^verbatim>\<open>github\<close>, not \<^verbatim>\<open>git-provider\<close>, its owner is \<^verbatim>\<open>acme\<close>, not \<^verbatim>\<open>alice\<close>, and the
  owner is a field of \<^verbatim>\<open>source.config\<close>, not of \<^verbatim>\<open>source\<close>.
\<close>

theorem payload_source_counterexample:
  "py_path (PDict example_details) [''info'', ''link'', ''type''] = Some (PStr ''github'') \<and>
   py_path (PDict example_details) [''info'', ''link'', ''owner''] = Some (PStr ''alice'') \<and>
   prepare_payload (PDict example_details) = Inr (Payload (PStr ''site'') example_payload) \<and>
   py_path example_payload [''source'', ''type''] = Some (PStr ''github'') \<and>
   py_path example_payload [''source'', ''type''] \<noteq> Some (PStr ''git-provider'') \<and>
   py_path example_payload [''source'', ''config'', ''owner''] = Some (PStr ''acme'') \<and>
   py_path example_payload [''source'', ''config'', ''owner''] \<noteq> Some (PStr ''alice'') \<and>
   py_path example_payload [''source'', ''owner''] = None"
  using prepare_payload_example
  by (simp add: example_details_def example_info_def example_link_def example_payload_def)

section \<open>The two early returns\<close>

lemma prepare_payload_missing_name:
  assumes "dict_get d ''info'' (PDict []) = PDict info"
  shows "prepare_payload (PDict d) = Inr MissingName \<longleftrightarrow>
           \<not> truthy (dict_get info ''name'' PNone)"
  using assms
  by (auto simp: prepare_payload_def bind_py_def split: sum.splits if_splits)

lemma prepare_payload_not_github:
  assumes "dict_get d ''info'' (PDict []) = PDict info"
    and "truthy (dict_get info ''name'' PNone)"
    and "dict_get d ''env_vars'' (PList []) = PList vars"
    and "list_all env_var_shaped vars"
    and "\<not> truthy (dict_get info ''link'' PNone) \<or>
         (\<exists>link. dict_get info ''link'' PNone = PDict link \<and>
            dict_get link ''type'' PNone \<noteq> PStr ''github'')"
  shows "prepare_payload (PDict d) = Inr (NotGithub (dict_get info ''name'' PNone))"
proof -
  from env_var_loop_total[OF assms(4), of "([], [])"] obtain envs where
    "env_var_loop vars ([], []) = Inr envs" by blast
  moreover from assms(5) have "not_github (dict_get info ''link'' PNone) = Inr True"
    by (auto simp: not_github_def)
  ultimately show ?thesis
    using assms(1-3) by (simp add: prepare_payload_def py_iter_def)
qed

text \<open>
  C3, as the code has it. The function stops for a missing name if and only if
  \<^verbatim>\<open>info.name\<close> is empty or absent. When the name is non-empty and the link has type
  \<^verbatim>\<open>github\<close>, the payload is constructed; when the name is non-empty and the project is
  not linked to GitHub, no payload is constructed: the function stops at its own
  eligibility test, never with the missing name. (The project detail is an object with an
  object \<^verbatim>\<open>info\<close>; the environment variables have the documented shape.)
\<close>

theorem mapping_fails_iff_name_missing:
  assumes "dict_get d ''info'' (PDict []) = PDict info"
    and "dict_get d ''env_vars'' (PList []) = PList vars"
    and "list_all env_var_shaped vars"
  shows "(prepare_payload (PDict d) = Inr MissingName \<longleftrightarrow>
            \<not> truthy (dict_get info ''name'' PNone)) \<and>
         (truthy (dict_get info ''name'' PNone) \<and>
          dict_get info ''link'' PNone = PDict link \<and>
          dict_get link ''type'' PNone = PStr ''github'' \<longrightarrow>
            (\<exists>p. prepare_payload (PDict d) = Inr (Payload (dict_get info ''name'' PNone) p))) \<and>
         (truthy (dict_get info ''name'' PNone) \<and>
          (\<not> truthy (dict_get info ''link'' PNone) \<or>
           dict_get info ''link'' PNone = PDict link \<and>
           dict_get link ''type'' PNone \<noteq> PStr ''github'') \<longrightarrow>
            prepare_payload (PDict d) = Inr (NotGithub (dict_get info ''name'' PNone)))"
proof (intro conjI impI)
  show "prepare_payload (PDict d) = Inr MissingName \<longleftrightarrow>
          \<not> truthy (dict_get info ''name'' PNone)"
    by (rule prepare_payload_missing_name[OF assms(1)])
next
  assume "truthy (dict_get info ''name'' PNone) \<and>
          dict_get info ''link'' PNone = PDict link \<and>
          dict_get link ''type'' PNone = PStr ''github''"
  then show "\<exists>p. prepare_payload (PDict d) = Inr (Payload (dict_get info ''name'' PNone) p)"
    using prepare_payload_shaped[OF assms(1) _ _ _ assms(2,3), of link] by blast
next
  assume "truthy (dict_get info ''name'' PNone) \<and>
          (\<not> truthy (dict_get info ''link'' PNone) \<or>
           dict_get info ''link'' PNone = PDict link \<and>
           dict_get link ''type'' PNone \<noteq> PStr ''github'')"
  then show "prepare_payload (PDict d) = Inr (NotGithub (dict_get info ''name'' PNone))"
    using prepare_payload_not_github[OF assms(1) _ assms(2,3)] by blast
qed

theorem mapping_fails_iff_name_missing_witness:
  "dict_get example_details ''info'' (PDict []) = PDict example_info \<and>
   dict_get example_details ''env_vars'' (PList []) = PList example_env_vars \<and>
   list_all env_var_shaped example_env_vars \<and>
   truthy (dict_get example_info ''name'' PNone) \<and>
   dict_get example_info ''link'' PNone = PDict example_link \<and>
   dict_get example_link ''type'' PNone = PStr ''github'' \<and>
   prepare_payload (PDict example_details) \<noteq> Inr MissingName \<and>
   (\<exists>p. prepare_payload (PDict example_details) = Inr (Payload (PStr ''site'') p)) \<and>
   dict_get example_unnamed_details ''info'' (PDict [])
     = PDict [(PStr ''name'', PStr []), (PStr ''link'', PDict example_link)] \<and>
   dict_get example_unnamed_details ''env_vars'' (PList []) = PList example_env_vars \<and>
   prepare_payload (PDict example_unnamed_details) = Inr MissingName \<and>
   dict_get example_unlinked_details ''info'' (PDict []) = PDict [(PStr ''name'', PStr ''blog'')] \<and>
   dict_get example_unlinked_details ''env_vars'' (PList []) = PList [] \<and>
   list_all env_var_shaped [] \<and>
   prepare_payload (PDict example_unlinked_details) = Inr (NotGithub (PStr ''blog''))"
proof -
  have unnamed:
    "dict_get example_unnamed_details ''info'' (PDict [])
       = PDict [(PStr ''name'', PStr []), (PStr ''link'', PDict example_link)]"
    "dict_get example_unnamed_details ''env_vars'' (PList []) = PList example_env_vars"
    by (simp_all add: example_unnamed_details_def dict_get_def)
  have unlinked:
    "dict_get example_unlinked_details ''info'' (PDict []) = PDict [(PStr ''name'', PStr ''blog'')]"
    "dict_get example_unlinked_details ''env_vars'' (PList []) = PList []"
    "list_all env_var_shaped []"
    by (simp_all add: example_unlinked_details_def dict_get_def)
  note a = mapping_fails_iff_name_missing[OF example_details_facts(1,5,6), of example_link]
  note b = mapping_fails_iff_name_missing[OF unnamed example_details_facts(6), of example_link]
  note c = mapping_fails_iff_name_missing[OF unlinked, of "[]"]
  have "prepare_payload (PDict example_details) \<noteq> Inr MissingName"
    and "\<exists>p. prepare_payload (PDict example_details) = Inr (Payload (PStr ''site'') p)"
    using a example_details_facts by (simp_all add: example_info_fields)
  moreover have "prepare_payload (PDict example_unnamed_details) = Inr MissingName"
    using b by (simp add: dict_get_def)
  moreover have "prepare_payload (PDict example_unlinked_details) = Inr (NotGithub (PStr ''blog''))"
    using c by (simp add: dict_get_def)
  ultimately show ?thesis
    using example_details_facts unnamed unlinked by simp
qed

section \<open>Requests and printed lines\<close>

lemma http_Cons [simp]:
  "replies w = r # rest \<Longrightarrow>
     http w rq = Some (r, w\<lparr>replies := rest, sent := sent w @ [rq]\<rparr>)"
  by (simp add: http_def)

lemma http_Nil [simp]: "replies w = [] \<Longrightarrow> http w rq = None"
  by (simp add: http_def)

lemma replies_prints [simp]: "replies (prints w ms) = replies w"
  by (simp add: prints_def)

lemma sent_prints [simp]: "sent (prints w ms) = sent w"
  by (simp add: prints_def)

lemma printed_prints [simp]: "printed (prints w ms) = printed w @ ms"
  by (simp add: prints_def)

section \<open>The details of one project\<close>

lemma fetch_list_Cons:
  "replies w = r # rest \<Longrightarrow>
     fetch_list w rq field failure =
       (case fetched r of
          None \<Rightarrow> Done (PList []) (w\<lparr>replies := rest, sent := sent w @ [rq],
                                      printed := printed w @ [failure]\<rparr>)
        | Some body \<Rightarrow>
            (case py_get body field (PList []) of
               Inl e \<Rightarrow> Crash e (w\<lparr>replies := rest, sent := sent w @ [rq]\<rparr>)
             | Inr v \<Rightarrow> Done v (w\<lparr>replies := rest, sent := sent w @ [rq]\<rparr>)))"
  by (simp add: fetch_list_def prints_def split: option.splits sum.splits)

lemma details_core_fails:
  "replies w = r # rest \<Longrightarrow> fetched r = None \<Longrightarrow>
     get_vercel_project_details w api_token project_id =
       Done PNone (w\<lparr>replies := rest, sent := sent w @ [Get (VercelProject project_id) api_token],
                      printed := printed w @ [ErrorFetchingInfo project_id]\<rparr>)"
  by (simp add: get_vercel_project_details_def prints_def)

lemma fetched_None_iff: "fetched r = None \<longleftrightarrow> request_failed r"
  by (cases r) (auto simp: fetched_def http_error_def request_failed_def)

lemma fetched_Some_iff:
  "fetched r = Some b \<longleftrightarrow> (\<exists>st. r = Response st (Some b) \<and> \<not> (400 \<le> st \<and> st < 600))"
  by (cases r) (auto simp: fetched_def http_error_def)

lemma fetch_list_expected:
  assumes "replies w = r # rest" and "schema_reply field r"
  shows "fetch_list w rq field failure =
           Done (PList (expected_list field r))
             (w\<lparr>replies := rest, sent := sent w @ [rq],
                printed := printed w @ (if request_failed r then [failure] else [])\<rparr>)"
proof (cases "request_failed r")
  case True
  then have "fetched r = None" by (simp add: fetched_None_iff)
  moreover have "expected_list field r = []"
    using True
    by (auto simp: expected_list_def request_failed_def
        split: reply.splits option.splits pyval.splits)
  ultimately show ?thesis
    using assms(1) True by (simp add: fetch_list_Cons)
next
  case False
  with assms(2) obtain st b where r: "r = Response st (Some (PDict b))"
    and ok: "\<not> (400 \<le> st \<and> st < 600)"
    and l: "\<exists>xs. dict_get b field (PList []) = PList xs"
    by (auto simp: schema_reply_def request_failed_def list_field_body_def
        split: reply.splits option.splits pyval.splits)
  from r ok have f: "fetched r = Some (PDict b)" by (simp add: fetched_Some_iff)
  from l obtain xs where xs: "dict_get b field (PList []) = PList xs" by blast
  have "expected_list field r = xs"
    using r ok xs by (auto simp: expected_list_def)
  then show ?thesis
    using assms(1) False f xs by (simp add: fetch_list_Cons)
qed

lemma details_expected:
  assumes "replies w = Response st (Some info) # r2 # r3 # rest"
    and "\<not> (400 \<le> st \<and> st < 600)"
    and "schema_reply ''envs'' r2" and "schema_reply ''domains'' r3"
  shows "get_vercel_project_details w api_token project_id =
           Done (PDict [(PStr ''info'', info),
                        (PStr ''env_vars'', PList (expected_list ''envs'' r2)),
                        (PStr ''domains'', PList (expected_list ''domains'' r3))])
             (expected_details_world w api_token project_id r2 r3 rest)"
proof -
  let ?w1 = "w\<lparr>replies := r2 # r3 # rest,
                sent := sent w @ [Get (VercelProject project_id) api_token]\<rparr>"
  have f: "fetched (Response st (Some info)) = Some info"
    using assms(2) by (simp add: fetched_Some_iff)
  have w1: "replies ?w1 = r2 # r3 # rest" by simp
  note e = fetch_list_expected[OF w1 assms(3), of "Get (VercelProjectEnv project_id) api_token"
      "ErrorFetchingEnvVars project_id"]
  let ?w2 = "?w1\<lparr>replies := r3 # rest,
               sent := sent ?w1 @ [Get (VercelProjectEnv project_id) api_token],
               printed := printed ?w1 @
                 (if request_failed r2 then [ErrorFetchingEnvVars project_id] else [])\<rparr>"
  have w2: "replies ?w2 = r3 # rest" by simp
  note d = fetch_list_expected[OF w2 assms(4),
      of "Get (VercelProjectDomains project_id) api_token" "ErrorFetchingDomains project_id"]
  show ?thesis
    using assms(1) f e d
    by (simp add: get_vercel_project_details_def expected_details_world_def)
qed

lemma details_failed:
  assumes "replies w = r1 # rest" and "request_failed r1"
  shows "get_vercel_project_details w api_token project_id =
           Done PNone (w\<lparr>replies := rest,
                         sent := sent w @ [Get (VercelProject project_id) api_token],
                         printed := printed w @ [ErrorFetchingInfo project_id]\<rparr>)"
  using assms by (simp add: details_core_fails fetched_None_iff)

lemma details_not_None:
  assumes "replies w = r1 # rest" and "\<not> request_failed r1"
  shows "get_vercel_project_details w api_token project_id \<noteq> Done PNone w'"
proof -
  from assms(2) obtain info where f: "fetched r1 = Some info"
    by (cases "fetched r1") (auto simp: fetched_None_iff)
  show ?thesis
    using assms(1) f
    by (auto simp: get_vercel_project_details_def split: outcome.splits)
qed

text \<open>
  C7. \<^verbatim>\<open>get_vercel_project_details\<close> returns \<^verbatim>\<open>None\<close> if and only if the request for the
  core info fails: no response, an error status, or a body that is not JSON. When that
  request is answered, the detail is returned with \<^verbatim>\<open>info\<close> filled in and with both
  \<^verbatim>\<open>env_vars\<close> and \<^verbatim>\<open>domains\<close> present as lists: the empty list when the request for the
  environment variables (for the domains) fails, the list of the answer otherwise; all
  three requests are made, and a line is printed for each secondary request that failed.
  (Vercel answers the two secondary requests, when it answers them, as its interface says.)
\<close>

theorem project_details_degrade:
  assumes "replies w = r1 # r2 # r3 # rest"
    and "schema_reply ''envs'' r2" and "schema_reply ''domains'' r3"
  shows "((\<exists>w'. get_vercel_project_details w api_token project_id = Done PNone w') \<longleftrightarrow>
            request_failed r1) \<and>
         (\<forall>st info. r1 = Response st (Some info) \<and> \<not> (400 \<le> st \<and> st < 600) \<longrightarrow>
            (\<exists>envs domains w'.
               get_vercel_project_details w api_token project_id =
                 Done (PDict [(PStr ''info'', info), (PStr ''env_vars'', PList envs),
                              (PStr ''domains'', PList domains)]) w' \<and>
               (request_failed r2 \<longrightarrow> envs = []) \<and>
               (request_failed r3 \<longrightarrow> domains = []) \<and>
               (\<forall>s b. r2 = Response s (Some (PDict b)) \<and> \<not> (400 \<le> s \<and> s < 600) \<longrightarrow>
                  PList envs = dict_get b ''envs'' (PList [])) \<and>
               (\<forall>s b. r3 = Response s (Some (PDict b)) \<and> \<not> (400 \<le> s \<and> s < 600) \<longrightarrow>
                  PList domains = dict_get b ''domains'' (PList [])) \<and>
               replies w' = rest \<and>
               sent w' = sent w @ [Get (VercelProject project_id) api_token,
                                   Get (VercelProjectEnv project_id) api_token,
                                   Get (VercelProjectDomains project_id) api_token] \<and>
               printed w' = printed w @
                 (if request_failed r2 then [ErrorFetchingEnvVars project_id] else []) @
                 (if request_failed r3 then [ErrorFetchingDomains project_id] else [])))"
proof (intro conjI allI impI)
  show "(\<exists>w'. get_vercel_project_details w api_token project_id = Done PNone w') \<longleftrightarrow>
          request_failed r1"
    using details_failed[OF assms(1)] details_not_None[OF assms(1)] by blast
next
  fix st info
  assume h: "r1 = Response st (Some info) \<and> \<not> (400 \<le> st \<and> st < 600)"
  have el: "request_failed r \<Longrightarrow> expected_list field r = []" for field r
    by (auto simp: expected_list_def request_failed_def
        split: reply.splits option.splits pyval.splits)
  have ev: "schema_reply field r \<Longrightarrow> r = Response s (Some (PDict b)) \<Longrightarrow>
      \<not> (400 \<le> s \<and> s < 600) \<Longrightarrow> PList (expected_list field r) = dict_get b field (PList [])"
    for field r s b
    by (auto simp: expected_list_def schema_reply_def request_failed_def list_field_body_def
        split: pyval.splits)
  from h assms(1) have "replies w = Response st (Some info) # r2 # r3 # rest" by simp
  from details_expected[OF this _ assms(2,3), of api_token project_id] h
  have "get_vercel_project_details w api_token project_id =
           Done (PDict [(PStr ''info'', info),
                        (PStr ''env_vars'', PList (expected_list ''envs'' r2)),
                        (PStr ''domains'', PList (expected_list ''domains'' r3))])
             (expected_details_world w api_token project_id r2 r3 rest)"
    by simp
  then show "\<exists>envs domains w'.
               get_vercel_project_details w api_token project_id =
                 Done (PDict [(PStr ''info'', info), (PStr ''env_vars'', PList envs),
                              (PStr ''domains'', PList domains)]) w' \<and>
               (request_failed r2 \<longrightarrow> envs = []) \<and>
               (request_failed r3 \<longrightarrow> domains = []) \<and>
               (\<forall>s b. r2 = Response s (Some (PDict b)) \<and> \<not> (400 \<le> s \<and> s < 600) \<longrightarrow>
                  PList envs = dict_get b ''envs'' (PList [])) \<and>
               (\<forall>s b. r3 = Response s (Some (PDict b)) \<and> \<not> (400 \<le> s \<and> s < 600) \<longrightarrow>
                  PList domains = dict_get b ''domains'' (PList [])) \<and>
               replies w' = rest \<and>
               sent w' = sent w @ [Get (VercelProject project_id) api_token,
                                   Get (VercelProjectEnv project_id) api_token,
                                   Get (VercelProjectDomains project_id) api_token] \<and>
               printed w' = printed w @
                 (if request_failed r2 then [ErrorFetchingEnvVars project_id] else []) @
                 (if request_failed r3 then [ErrorFetchingDomains project_id] else [])"
    using el[of r2 "''envs''"] el[of r3 "''domains''"]
      ev[OF assms(2)] ev[OF assms(3)]
    by (auto simp: expected_details_world_def)
qed

theorem project_details_degrade_witness:
  "replies (start [Response 404 (Some (PDict [(PStr ''error'', PStr ''not found'')])),
                   ConnectionFailed, Response 500 None])
     = [Response 404 (Some (PDict [(PStr ''error'', PStr ''not found'')])),
        ConnectionFailed, Response 500 None] \<and>
   schema_reply ''envs'' ConnectionFailed \<and>
   schema_reply ''domains'' (Response 500 None) \<and>
   request_failed (Response 404 (Some (PDict [(PStr ''error'', PStr ''not found'')]))) \<and>
   (\<exists>w'. get_vercel_project_details
            (start [Response 404 (Some (PDict [(PStr ''error'', PStr ''not found'')])),
                    ConnectionFailed, Response 500 None])
            ''vt'' (PStr ''prj_1'') = Done PNone w') \<and>
   replies (start [Response 200 (Some (PDict example_info)),
                   Response 503 (Some (PDict [(PStr ''envs'', PList example_env_vars)])),
                   ConnectionFailed])
     = [Response 200 (Some (PDict example_info)),
        Response 503 (Some (PDict [(PStr ''envs'', PList example_env_vars)])),
        ConnectionFailed] \<and>
   schema_reply ''envs'' (Response 503 (Some (PDict [(PStr ''envs'', PList example_env_vars)]))) \<and>
   schema_reply ''domains'' ConnectionFailed \<and>
   \<not> request_failed (Response 200 (Some (PDict example_info))) \<and>
   request_failed (Response 503 (Some (PDict [(PStr ''envs'', PList example_env_vars)]))) \<and>
   request_failed ConnectionFailed \<and>
   (\<exists>w'. get_vercel_project_details
            (start [Response 200 (Some (PDict example_info)),
                    Response 503 (Some (PDict [(PStr ''envs'', PList example_env_vars)])),
                    ConnectionFailed])
            ''vt'' (PStr ''prj_1'') =
          Done (PDict [(PStr ''info'', PDict example_info), (PStr ''env_vars'', PList []),
                       (PStr ''domains'', PList [])]) w' \<and>
          replies w' = [] \<and>
          sent w' = [Get (VercelProject (PStr ''prj_1'')) ''vt'',
                     Get (VercelProjectEnv (PStr ''prj_1'')) ''vt'',
                     Get (VercelProjectDomains (PStr ''prj_1'')) ''vt''] \<and>
          printed w' = [ErrorFetchingEnvVars (PStr ''prj_1''),
                        ErrorFetchingDomains (PStr ''prj_1'')]) \<and>
   replies (start [Response 200 (Some (PDict example_info)),
                   Response 200 (Some (PDict [(PStr ''envs'', PList example_env_vars)])),
                   Response 200 (Some (PDict []))])
     = [Response 200 (Some (PDict example_info)),
        Response 200 (Some (PDict [(PStr ''envs'', PList example_env_vars)])),
        Response 200 (Some (PDict []))] \<and>
   schema_reply ''envs'' (Response 200 (Some (PDict [(PStr ''envs'', PList example_env_vars)]))) \<and>
   schema_reply ''domains'' (Response 200 (Some (PDict []))) \<and>
   (\<exists>w'. get_vercel_project_details
            (start [Response 200 (Some (PDict example_info)),
                    Response 200 (Some (PDict [(PStr ''envs'', PList example_env_vars)])),
                    Response 200 (Some (PDict []))])
            ''vt'' (PStr ''prj_1'') =
          Done (PDict [(PStr ''info'', PDict example_info),
                       (PStr ''env_vars'', PList example_env_vars),
                       (PStr ''domains'', PList [])]) w' \<and>
          printed w' = [])"
proof -
  let ?e404 = "Response 404 (Some (PDict [(PStr ''error'', PStr ''not found'')]))"
  let ?info = "Response 200 (Some (PDict example_info))"
  let ?e503 = "Response 503 (Some (PDict [(PStr ''envs'', PList example_env_vars)]))"
  let ?envs = "Response 200 (Some (PDict [(PStr ''envs'', PList example_env_vars)]))"
  let ?none = "Response 200 (Some (PDict []))"
  have r: "replies (start rs) = rs" "sent (start rs) = []" "printed (start rs) = []" for rs
    by (simp_all add: start_def)
  have f: "request_failed ?e404" "request_failed ConnectionFailed"
    "request_failed (Response 500 None)" "request_failed ?e503"
    "\<not> request_failed ?info" "\<not> request_failed ?envs" "\<not> request_failed ?none"
    by (simp_all add: request_failed_def)
  have sc: "schema_reply ''envs'' ConnectionFailed" "schema_reply ''domains'' (Response 500 None)"
    "schema_reply ''envs'' ?e503" "schema_reply ''domains'' ConnectionFailed"
    "schema_reply ''envs'' ?envs" "schema_reply ''domains'' ?none"
    by (simp_all add: schema_reply_def request_failed_def list_field_body_def dict_get_def)
  note a = project_details_degrade[OF r(1) sc(1,2), of ?e404 "[]" "''vt''" "PStr ''prj_1''"]
  note b = project_details_degrade[OF r(1) sc(3,4), of ?info "[]" "''vt''" "PStr ''prj_1''"]
  note c = project_details_degrade[OF r(1) sc(5,6), of ?info "[]" "''vt''" "PStr ''prj_1''"]
  have A: "\<exists>w'. get_vercel_project_details (start [?e404, ConnectionFailed, Response 500 None])
            ''vt'' (PStr ''prj_1'') = Done PNone w'"
    using a f(1) by blast
  have B: "\<exists>w'. get_vercel_project_details (start [?info, ?e503, ConnectionFailed])
            ''vt'' (PStr ''prj_1'') =
          Done (PDict [(PStr ''info'', PDict example_info), (PStr ''env_vars'', PList []),
                       (PStr ''domains'', PList [])]) w' \<and>
          replies w' = [] \<and>
          sent w' = [Get (VercelProject (PStr ''prj_1'')) ''vt'',
                     Get (VercelProjectEnv (PStr ''prj_1'')) ''vt'',
                     Get (VercelProjectDomains (PStr ''prj_1'')) ''vt''] \<and>
          printed w' = [ErrorFetchingEnvVars (PStr ''prj_1''),
                        ErrorFetchingDomains (PStr ''prj_1'')]"
    using b f r by auto
  have C: "\<exists>w'. get_vercel_project_details (start [?info, ?envs, ?none])
            ''vt'' (PStr ''prj_1'') =
          Done (PDict [(PStr ''info'', PDict example_info),
                       (PStr ''env_vars'', PList example_env_vars),
                       (PStr ''domains'', PList [])]) w' \<and>
          printed w' = []"
    using c f r by (auto simp: dict_get_def)
  show ?thesis
    using A B C r(1) f sc by simp
qed

section \<open>The unbound response\<close>

text \<open>
  C9. The handlers of \<^verbatim>\<open>get_vercel_projects\<close> and of \<^verbatim>\<open>create_cloudflare_pages_project\<close>
  read the variable \<^verbatim>\<open>response\<close>. When the request itself raises before \<^verbatim>\<open>response\<close> is
  bound (the first page request of the listing, or the creation POST), the handler raises
  \<^verbatim>\<open>UnboundLocalError\<close> instead of returning \<^verbatim>\<open>None\<close>; when the request returned a response
  with an error status, or an earlier page has bound \<^verbatim>\<open>response\<close>, the handler prints the
  status and the text of that response and the function returns \<^verbatim>\<open>None\<close>.
\<close>

theorem unbound_response_crash:
  "(replies w = ConnectionFailed # rest \<longrightarrow>
      get_vercel_projects w api_token =
        Crash UnboundLocalError
          (w\<lparr>replies := rest, sent := sent w @ [Get VercelProjects api_token],
             printed := printed w @ [ErrorFetchingProjects]\<rparr>)) \<and>
   (replies w = ConnectionFailed # rest \<and>
    prepare_payload details = Inr (Payload project_name payload) \<longrightarrow>
      create_cloudflare_pages_project w cf_api_token cf_account_id details =
        Crash UnboundLocalError
          (w\<lparr>replies := rest,
             sent := sent w @ [Post (CloudflarePagesProjects cf_account_id) cf_api_token payload],
             printed := printed w @ [AttemptingToCreate project_name,
                                     ErrorCreating project_name]\<rparr>)) \<and>
   (replies w = Response st body # rest \<and> http_error st \<longrightarrow>
      get_vercel_projects w api_token =
        Done PNone
          (w\<lparr>replies := rest, sent := sent w @ [Get VercelProjects api_token],
             printed := printed w @ [ErrorFetchingProjects, ResponseStatus st,
                                     ResponseText body]\<rparr>)) \<and>
   (replies w = Response st body # rest \<and> http_error st \<and>
    prepare_payload details = Inr (Payload project_name payload) \<longrightarrow>
      create_cloudflare_pages_project w cf_api_token cf_account_id details =
        Done PNone
          (w\<lparr>replies := rest,
             sent := sent w @ [Post (CloudflarePagesProjects cf_account_id) cf_api_token payload],
             printed := printed w @ [AttemptingToCreate project_name, ErrorCreating project_name,
                                     ResponseStatus st, ResponseText body]\<rparr>)) \<and>
   (replies w = ConnectionFailed # rest \<longrightarrow>
      get_vercel_projects_loop w api_token url projects (Some (st, body)) =
        Done PNone
          (w\<lparr>replies := rest, sent := sent w @ [Get url api_token],
             printed := printed w @ [ErrorFetchingProjects, ResponseStatus st,
                                     ResponseText body]\<rparr>))"
  by (simp add: get_vercel_projects_def get_vercel_projects_loop.simps projects_handler_def
      create_handler_def create_cloudflare_pages_project_def prints_def)

theorem unbound_response_crash_witness:
  "replies (start [ConnectionFailed]) = [ConnectionFailed] \<and>
   prepare_payload (PDict example_details) = Inr (Payload (PStr ''site'') example_payload) \<and>
   get_vercel_projects (start [ConnectionFailed]) ''vt'' =
     Crash UnboundLocalError
       \<lparr>replies = [], sent = [Get VercelProjects ''vt''], printed = [ErrorFetchingProjects]\<rparr> \<and>
   create_cloudflare_pages_project (start [ConnectionFailed]) ''ct'' ''acct''
       (PDict example_details) =
     Crash UnboundLocalError
       \<lparr>replies = [],
          sent = [Post (CloudflarePagesProjects ''acct'') ''ct'' example_payload],
          printed = [AttemptingToCreate (PStr ''site''), ErrorCreating (PStr ''site'')]\<rparr> \<and>
   replies (start [Response 500 None]) = [Response 500 None] \<and>
   http_error 500 \<and>
   get_vercel_projects (start [Response 500 None]) ''vt'' =
     Done PNone
       \<lparr>replies = [], sent = [Get VercelProjects ''vt''],
          printed = [ErrorFetchingProjects, ResponseStatus 500, ResponseText None]\<rparr> \<and>
   create_cloudflare_pages_project (start [Response 500 None]) ''ct'' ''acct''
       (PDict example_details) =
     Done PNone
       \<lparr>replies = [],
          sent = [Post (CloudflarePagesProjects ''acct'') ''ct'' example_payload],
          printed = [AttemptingToCreate (PStr ''site''), ErrorCreating (PStr ''site''),
                     ResponseStatus 500, ResponseText None]\<rparr> \<and>
   get_vercel_projects_loop (start [ConnectionFailed]) ''vt'' (VercelProjectsUntil (PInt 7)) []
       (Some (200, None)) =
     Done PNone
       \<lparr>replies = [], sent = [Get (VercelProjectsUntil (PInt 7)) ''vt''],
          printed = [ErrorFetchingProjects, ResponseStatus 200, ResponseText None]\<rparr>"
proof -
  have r: "replies (start [ConnectionFailed]) = [ConnectionFailed]"
    "replies (start [Response 500 None]) = [Response 500 None]"
    by (simp_all add: start_def)
  have e: "http_error 500" by (simp add: http_error_def)
  note a = unbound_response_crash[of "start [ConnectionFailed]" "[]" "''vt''"
      "PDict example_details" "PStr ''site''" example_payload "''ct''" "''acct''" 200 None
      "VercelProjectsUntil (PInt 7)" "[]"]
  note b = unbound_response_crash[of "start [Response 500 None]" "[]" "''vt''"
      "PDict example_details" "PStr ''site''" example_payload "''ct''" "''acct''" 500 None]
  show ?thesis
    using a b r e prepare_payload_example by (simp add: start_def)
qed

section \<open>The pages of the project list\<close>

lemma page_projects_Some:
  assumes "page_projects r = Some (ps, c)"
  obtains st b pg where "r = Response st (Some (PDict b))" "\<not> http_error st"
    "dict_get b ''projects'' (PList []) = PList ps"
    "dict_get b ''pagination'' (PDict []) = PDict pg"
    "dict_get pg ''next'' PNone = c"
  using assms
  by (auto simp: page_projects_def fetched_def split: reply.splits option.splits pyval.splits
      if_splits)

lemma loop_page:
  assumes "replies w = r # rest" and "page_projects r = Some (ps, c)"
  shows "\<exists>st body.
           get_vercel_projects_loop w api_token url acc response =
             (if truthy c
              then get_vercel_projects_loop
                     (w\<lparr>replies := rest, sent := sent w @ [Get url api_token]\<rparr>) api_token
                     (VercelProjectsUntil c) (acc @ ps) (Some (st, body))
              else Done (PList (acc @ ps))
                     (w\<lparr>replies := rest, sent := sent w @ [Get url api_token]\<rparr>))"
  using assms(2)
proof (cases rule: page_projects_Some)
  case (1 st b pg)
  then show ?thesis
    using assms(1)
    by (subst get_vercel_projects_loop.simps) (auto simp: py_iter_def)
qed

lemma loop_failed:
  assumes "replies w = r # rest" and "fetched r = None"
    and "response \<noteq> None \<or> r \<noteq> ConnectionFailed"
  shows "\<exists>w'. get_vercel_projects_loop w api_token url acc response = Done PNone w' \<and>
           replies w' = rest"
  using assms
  by (subst get_vercel_projects_loop.simps)
     (auto simp: fetched_def projects_handler_def split: reply.splits option.splits if_splits)

lemma loop_all_pages:
  assumes "list_all continuing rs" and "page_projects r = Some (ps, c)" and "\<not> truthy c"
    and "replies w = rs @ r # rest"
  shows "\<exists>w'. get_vercel_projects_loop w api_token url acc response =
                 Done (PList (acc @ concat (map page_of rs) @ ps)) w' \<and>
               replies w' = rest"
  using assms(1,4)
proof (induction rs arbitrary: w url acc response)
  case Nil
  then show ?case
    using loop_page[of w r rest ps c api_token url acc response] assms(2,3) by auto
next
  case (Cons p rs)
  from Cons.prems(1) obtain ps' c' where p: "page_projects p = Some (ps', c')" "truthy c'"
    by (auto simp: continuing_def split: option.splits)
  have pg: "page_of p = ps'" using p by (simp add: page_of_def)
  from Cons.prems(2) have w: "replies w = p # (rs @ r # rest)" by simp
  from loop_page[OF w p(1), of api_token url acc response] p(2) obtain st body where
    step: "get_vercel_projects_loop w api_token url acc response =
             get_vercel_projects_loop
               (w\<lparr>replies := rs @ r # rest, sent := sent w @ [Get url api_token]\<rparr>) api_token
               (VercelProjectsUntil c') (acc @ ps') (Some (st, body))"
    by auto
  from Cons.prems(1) have "list_all continuing rs" by simp
  from Cons.IH[OF this, of "w\<lparr>replies := rs @ r # rest, sent := sent w @ [Get url api_token]\<rparr>"
      "VercelProjectsUntil c'" "acc @ ps'" "Some (st, body)"]
  show ?case using step pg by simp
qed

lemma loop_page_fails:
  assumes "list_all continuing rs" and "fetched r = None"
    and "replies w = rs @ r # rest"
    and "response \<noteq> None \<or> rs \<noteq> [] \<or> r \<noteq> ConnectionFailed"
  shows "\<exists>w'. get_vercel_projects_loop w api_token url acc response = Done PNone w' \<and>
               replies w' = rest"
  using assms(1,3,4)
proof (induction rs arbitrary: w url acc response)
  case Nil
  then show ?case
    using loop_failed[of w r rest response api_token url acc] assms(2) by auto
next
  case (Cons p rs)
  from Cons.prems(1) obtain ps' c' where p: "page_projects p = Some (ps', c')" "truthy c'"
    by (auto simp: continuing_def split: option.splits)
  from Cons.prems(2) have w: "replies w = p # (rs @ r # rest)" by simp
  from loop_page[OF w p(1), of api_token url acc response] p(2) obtain st body where
    step: "get_vercel_projects_loop w api_token url acc response =
             get_vercel_projects_loop
               (w\<lparr>replies := rs @ r # rest, sent := sent w @ [Get url api_token]\<rparr>) api_token
               (VercelProjectsUntil c') (acc @ ps') (Some (st, body))"
    by auto
  from Cons.prems(1) have "list_all continuing rs" by simp
  from Cons.IH[OF this, of "w\<lparr>replies := rs @ r # rest, sent := sent w @ [Get url api_token]\<rparr>"
      "Some (st, body)" "VercelProjectsUntil c'" "acc @ ps'"]
  show ?case using step by simp
qed

text \<open>
  When every page request succeeds, the listing returns the projects of the pages in the
  order received.
\<close>

lemma get_vercel_projects_all_pages:
  assumes "list_all continuing rs" and "page_projects r = Some (ps, c)" and "\<not> truthy c"
    and "replies w = rs @ r # rest"
  shows "\<exists>w'. get_vercel_projects w api_token = Done (PList (concat (map page_of rs) @ ps)) w' \<and>
               replies w' = rest"
  using loop_all_pages[OF assms, of api_token VercelProjects "[]" None]
  by (simp add: get_vercel_projects_def)

text \<open>
  When a page request fails after earlier pages, or the first request is answered with an
  error status or with a body that is not JSON, the listing returns \<^verbatim>\<open>None\<close>: the pages
  already fetched are dropped.
\<close>

lemma get_vercel_projects_page_fails:
  assumes "list_all continuing rs" and "fetched r = None"
    and "replies w = rs @ r # rest"
    and "rs \<noteq> [] \<or> r \<noteq> ConnectionFailed"
  shows "\<exists>w'. get_vercel_projects w api_token = Done PNone w' \<and> replies w' = rest"
  using loop_page_fails[OF assms(1-3), of None api_token VercelProjects "[]"] assms(4)
  by (simp add: get_vercel_projects_def)

text \<open>
  C6, at the input where the code departs from it. The first page request fails in
  transport: \<^verbatim>\<open>requests.get\<close> raises, \<^verbatim>\<open>response\<close> is unbound, and the handler raises
  \<^verbatim>\<open>UnboundLocalError\<close> where it should return \<^verbatim>\<open>None\<close>; the bulk run ends with that
  exception.
\<close>

theorem listing_first_request_fails:
  "get_vercel_projects (start [ConnectionFailed]) ''vt'' =
     Crash UnboundLocalError
       \<lparr>replies = [], sent = [Get VercelProjects ''vt''], printed = [ErrorFetchingProjects]\<rparr> \<and>
   main (start [ConnectionFailed]) example_bulk_args =
     Crash UnboundLocalError
       \<lparr>replies = [], sent = [Get VercelProjects ''vt''],
          printed = [FetchingProjects, ErrorFetchingProjects]\<rparr>"
  by (simp add: main_def example_bulk_args_def get_vercel_projects_def
      get_vercel_projects_loop.simps projects_handler_def prints_def start_def)

text \<open>
  The claim C3 as the specification words it fails on a project with a name and no link:
  the name is non-empty, yet no payload is constructed; the function prints that the
  project is not linked to GitHub, makes no request and returns \<^verbatim>\<open>None\<close>.
\<close>

theorem mapping_fails_counterexample:
  "py_path (PDict example_unlinked_details) [''info'', ''name''] = Some (PStr ''blog'') \<and>
   prepare_payload (PDict example_unlinked_details) = Inr (NotGithub (PStr ''blog'')) \<and>
   create_cloudflare_pages_project (start []) ''ct'' ''acct'' (PDict example_unlinked_details) =
     Done PNone
       \<lparr>replies = [], sent = [],
          printed = [SkippingNotGithub (PStr ''blog''), PagesSupportsGitOrUpload,
                     ManualMigrationNeeded]\<rparr>"
  by (simp add: example_unlinked_details_def prepare_payload_def dict_get_def py_iter_def
      not_github_def create_cloudflare_pages_project_def prints_def start_def)

section \<open>The eligibility tests\<close>

lemma github_linked_link:
  assumes "dict_get d ''info'' (PDict []) = PDict info"
    and "dict_get info ''link'' (PDict []) = PDict link"
  shows "github_linked (PDict d) = Inr (dict_get link ''type'' PNone = PStr ''github'')"
  using assms by (simp add: github_linked_def)

lemma not_github_link:
  assumes "dict_get info ''link'' (PDict []) = PDict link"
  shows "not_github (dict_get info ''link'' PNone) =
           Inr (dict_get link ''type'' PNone \<noteq> PStr ''github'')"
proof (cases "map_of info (PStr ''link'')")
  case None
  then have "dict_get info ''link'' PNone = PNone" "link = []"
    using assms by (simp_all add: dict_get_def)
  then show ?thesis by (simp add: not_github_def dict_get_def)
next
  case (Some v)
  then have v: "dict_get info ''link'' PNone = PDict link"
    using assms by (simp add: dict_get_def)
  have "not_github (PDict link) = Inr (dict_get link ''type'' PNone \<noteq> PStr ''github'')"
  proof (cases link)
    case Nil
    then show ?thesis by (simp add: not_github_def dict_get_def)
  next
    case (Cons p ps)
    then show ?thesis by (simp add: not_github_def)
  qed
  then show ?thesis by (simp only: v)
qed

section \<open>The lines printed by one project\<close>

lemma fetch_list_printed:
  "fetch_list w rq field failure = Done v w' \<Longrightarrow> is_processing failure = False \<Longrightarrow>
     filter is_processing (printed w') = filter is_processing (printed w)"
  by (auto simp: fetch_list_def http_def split: list.splits option.splits sum.splits)

lemma details_result:
  assumes "get_vercel_project_details w api_token project_id = Done v w'"
  shows "(v = PNone \<or> (\<exists>i e dm. v = PDict [(PStr ''info'', i), (PStr ''env_vars'', e),
                                            (PStr ''domains'', dm)])) \<and>
         filter is_processing (printed w') = filter is_processing (printed w)"
proof (cases "http w (Get (VercelProject project_id) api_token)")
  case None
  then show ?thesis using assms by (simp add: get_vercel_project_details_def)
next
  case (Some a)
  obtain r w1 where a: "a = (r, w1)" by (cases a)
  have p1: "printed w1 = printed w"
    using Some a by (auto simp: http_def split: list.splits)
  show ?thesis
  proof (cases "fetched r")
    case None
    then show ?thesis
      using assms Some a p1
      by (auto simp: get_vercel_project_details_def is_processing_def)
  next
    case (Some info)
    note info = this
    show ?thesis
    proof (cases "fetch_list w1 (Get (VercelProjectEnv project_id) api_token) ''envs''
                    (ErrorFetchingEnvVars project_id)")
      case NoReply
      then show ?thesis
        using assms \<open>http w (Get (VercelProject project_id) api_token) = Some a\<close> a info
        by (simp add: get_vercel_project_details_def)
    next
      case (Crash e w2)
      then show ?thesis
        using assms \<open>http w (Get (VercelProject project_id) api_token) = Some a\<close> a info
        by (simp add: get_vercel_project_details_def)
    next
      case (Done envs w2)
      note envs = this
      have p2: "filter is_processing (printed w2) = filter is_processing (printed w1)"
        using fetch_list_printed[OF envs] by (simp add: is_processing_def)
      show ?thesis
      proof (cases "fetch_list w2 (Get (VercelProjectDomains project_id) api_token) ''domains''
                      (ErrorFetchingDomains project_id)")
        case NoReply
        then show ?thesis
          using assms \<open>http w (Get (VercelProject project_id) api_token) = Some a\<close> a info envs
          by (simp add: get_vercel_project_details_def)
      next
        case (Crash e w3)
        then show ?thesis
          using assms \<open>http w (Get (VercelProject project_id) api_token) = Some a\<close> a info envs
          by (simp add: get_vercel_project_details_def)
      next
        case (Done doms w3)
        have p3: "filter is_processing (printed w3) = filter is_processing (printed w2)"
          using fetch_list_printed[OF Done] by (simp add: is_processing_def)
        show ?thesis
          using assms \<open>http w (Get (VercelProject project_id) api_token) = Some a\<close> a info envs
            Done p1 p2 p3
          by (auto simp: get_vercel_project_details_def)
      qed
    qed
  qed
qed

lemma report_created_printed:
  "report_created w result = Done v w' \<Longrightarrow>
     filter is_processing (printed w') = filter is_processing (printed w)"
  by (auto simp: report_created_def is_processing_def split: sum.splits)

lemma create_printed:
  assumes "create_cloudflare_pages_project w cf_api_token cf_account_id details = Done v w'"
  shows "filter is_processing (printed w') = filter is_processing (printed w)"
proof (cases "prepare_payload details")
  case (Inl e)
  then show ?thesis using assms by (simp add: create_cloudflare_pages_project_def)
next
  case (Inr pr)
  show ?thesis
  proof (cases pr)
    case MissingName
    then show ?thesis
      using assms Inr by (auto simp: create_cloudflare_pages_project_def is_processing_def)
  next
    case (NotGithub n)
    then show ?thesis
      using assms Inr by (auto simp: create_cloudflare_pages_project_def is_processing_def)
  next
    case (Payload n p)
    show ?thesis
    proof (cases "replies w")
      case Nil
      then show ?thesis
        using assms Inr Payload by (simp add: create_cloudflare_pages_project_def)
    next
      case (Cons r rest)
      then have h: "replies (prints w [AttemptingToCreate n]) = r # rest" by simp
      show ?thesis
        using assms Inr Payload http_Cons[OF h]
          report_created_printed[of _ _ v w']
        by (cases r)
           (auto simp: create_cloudflare_pages_project_def create_handler_def is_processing_def
             split: if_splits option.splits)
    qed
  qed
qed

lemma process_project_PDict:
  "process_project w a (PDict pj) =
     (if \<not> truthy (dict_get pj ''id'' PNone)
      then Done () (prints w [ProcessingProject (dict_get pj ''name'' PNone)
                                (dict_get pj ''id'' PNone), SkippingMissingId])
      else
        (case get_vercel_project_details
                (prints w [ProcessingProject (dict_get pj ''name'' PNone)
                             (dict_get pj ''id'' PNone)])
                (arg_vercel_token a) (dict_get pj ''id'' PNone) of
           NoReply \<Rightarrow> NoReply
         | Crash e w1 \<Rightarrow> Crash e w1
         | Done project_details w1 \<Rightarrow>
             if truthy project_details then
               (case github_linked project_details of
                  Inl e \<Rightarrow> Crash e w1
                | Inr True \<Rightarrow>
                    (case create_cloudflare_pages_project w1 (arg_cf_token a)
                            (arg_cf_account_id a) project_details of
                       NoReply \<Rightarrow> NoReply
                     | Crash e w2 \<Rightarrow> Crash e w2
                     | Done created w2 \<Rightarrow> Done () w2)
                | Inr False \<Rightarrow>
                    Done () (prints w1 [SkippingAutomaticMigration (dict_get pj ''name'' PNone),
                                        ManualMigrationMightBeRequired]))
             else Done () (prints w1 [SkippingFailedDetails (dict_get pj ''name'' PNone)])))"
  by (simp add: process_project_def)

lemma process_project_Done_dict:
  "process_project w a p = Done u w' \<Longrightarrow> \<exists>pj. p = PDict pj"
  by (cases p) (simp_all add: process_project_def py_get_def)

lemma process_project_trace:
  assumes "process_project w a p = Done u w'"
  shows "filter is_processing (printed w') =
           filter is_processing (printed w) @ [processing_line p]"
proof -
  from process_project_Done_dict[OF assms] obtain pj where p: "p = PDict pj" by blast
  let ?line = "ProcessingProject (dict_get pj ''name'' PNone) (dict_get pj ''id'' PNone)"
  have line: "processing_line p = ?line" "is_processing ?line"
    by (simp_all add: p processing_line_def is_processing_def)
  show ?thesis
  proof (cases "truthy (dict_get pj ''id'' PNone)")
    case False
    then show ?thesis
      using assms line by (auto simp: p process_project_PDict is_processing_def)
  next
    case True
    show ?thesis
    proof (cases "get_vercel_project_details (prints w [?line]) (arg_vercel_token a)
                    (dict_get pj ''id'' PNone)")
      case NoReply
      then show ?thesis using assms True by (simp add: p process_project_PDict)
    next
      case (Crash e w1)
      then show ?thesis using assms True by (simp add: p process_project_PDict)
    next
      case (Done d w1)
      from details_result[OF Done]
      have p1: "filter is_processing (printed w1) = filter is_processing (printed w) @ [?line]"
        using line(2) by simp
      show ?thesis
      proof (cases "truthy d")
        case False
        then show ?thesis
          using assms True Done p1 line(1)
          by (auto simp: p process_project_PDict is_processing_def)
      next
        case td: True
        show ?thesis
        proof (cases "github_linked d")
          case (Inl e)
          then show ?thesis using assms True Done td by (simp add: p process_project_PDict)
        next
          case (Inr g)
          show ?thesis
          proof (cases g)
            case False
            then show ?thesis
              using assms True Done td Inr p1 line(1)
              by (auto simp: p process_project_PDict is_processing_def)
          next
            case tg: True
            show ?thesis
            proof (cases "create_cloudflare_pages_project w1 (arg_cf_token a)
                            (arg_cf_account_id a) d")
              case NoReply
              then show ?thesis
                using assms True Done td Inr tg by (simp add: p process_project_PDict)
            next
              case (Crash e w2)
              then show ?thesis
                using assms True Done td Inr tg by (simp add: p process_project_PDict)
            next
              case c: (Done created w2)
              from create_printed[OF c] p1 line(1)
              show ?thesis
                using assms True Done td Inr tg c by (simp add: p process_project_PDict)
            qed
          qed
        qed
      qed
    qed
  qed
qed

lemma process_projects_trace:
  "process_projects w a ps = Done u w' \<Longrightarrow>
     filter is_processing (printed w') =
       filter is_processing (printed w) @ map processing_line ps"
proof (induction ps arbitrary: w)
  case Nil
  then show ?case by simp
next
  case (Cons p ps)
  then obtain w1 where step: "process_project w a p = Done () w1"
    and rest: "process_projects w1 a ps = Done u w'"
    by (auto split: outcome.splits)
  from process_project_trace[OF step] Cons.IH[OF rest] show ?case by simp
qed

section \<open>Example runs\<close>

lemmas run_defs =
  main_def example_bulk_args_def start_def get_vercel_projects_def
  get_vercel_projects_loop.simps fetched_def http_error_def py_iter_def dict_get_def
  process_project_def get_vercel_project_details_def fetch_list_def github_linked_def
  create_cloudflare_pages_project_def create_handler_def report_created_def
  projects_handler_def
  prepare_payload_example[unfolded example_details_def example_info_def example_link_def]
  example_info_def example_link_def example_nameless_info_def prints_def

lemma prepare_payload_nameless:
  "prepare_payload (PDict [(PStr ''info'', PDict example_nameless_info),
                           (PStr ''env_vars'', PList []), (PStr ''domains'', PList [])])
     = Inr MissingName"
  by (simp add: prepare_payload_def example_nameless_info_def dict_get_def)

lemma example_listing:
  "get_vercel_projects (prints (start example_run) [FetchingProjects]) ''vt'' =
     Done (PList example_summaries) example_listed"
  by (simp add: example_run_def example_listed_def run_defs)

lemma example_processing:
  "process_projects (prints example_listed [FoundProjects (length example_summaries)])
      example_bulk_args example_summaries = Done () example_run_end"
  by (simp add: example_run_def example_listed_def example_summaries_def example_run_end_def
      run_defs prepare_payload_nameless[unfolded example_nameless_info_def example_link_def])

text \<open>
  The claim C2 as the specification words it fails on a project whose link is malformed:
  the link is the address of the repository as a string. The test of the bulk loop calls
  \<^verbatim>\<open>.get\<close> on the string and the run ends with \<^verbatim>\<open>AttributeError\<close>; the test inside
  \<^verbatim>\<open>create_cloudflare_pages_project\<close> raises the same exception.
\<close>

theorem string_link_counterexample:
  "main (start example_string_link_run) example_bulk_args =
     Crash AttributeError
       \<lparr>replies = [],
          sent = [Get VercelProjects ''vt'',
                  Get (VercelProject (PStr ''prj_1'')) ''vt'',
                  Get (VercelProjectEnv (PStr ''prj_1'')) ''vt'',
                  Get (VercelProjectDomains (PStr ''prj_1'')) ''vt''],
          printed = [FetchingProjects, FoundProjects 1,
                     ProcessingProject (PStr ''site'') (PStr ''prj_1'')]\<rparr> \<and>
   prepare_payload (PDict [(PStr ''info'', PDict example_string_link_info),
                           (PStr ''env_vars'', PList []), (PStr ''domains'', PList [])]) =
     Inl AttributeError"
  by (simp add: example_string_link_run_def example_string_link_info_def run_defs
      prepare_payload_def not_github_def py_get_def)

text \<open>
  A run of two projects in which the creation request of the first project fails in
  transport: the handler raises \<^verbatim>\<open>UnboundLocalError\<close> and the run ends there, with the
  replies for the second project unread.
\<close>

lemma bulk_run_aborts:
  "main (start example_abort_run) example_bulk_args =
     Crash UnboundLocalError
       \<lparr>replies = [Response 200 (Some (PDict example_info)),
                    Response 200 (Some (PDict [(PStr ''envs'', PList example_env_vars)])),
                    Response 200 (Some (PDict [(PStr ''domains'', PList [])])),
                    Response 200 (Some (PDict [(PStr ''result'',
                       PDict [(PStr ''name'', PStr ''site''),
                              (PStr ''subdomain'', PStr ''site.pages.dev'')])]))],
          sent = [Get VercelProjects ''vt'',
                  Get (VercelProject (PStr ''prj_4'')) ''vt'',
                  Get (VercelProjectEnv (PStr ''prj_4'')) ''vt'',
                  Get (VercelProjectDomains (PStr ''prj_4'')) ''vt'',
                  Post (CloudflarePagesProjects ''acct'') ''ct'' example_payload],
          printed = [FetchingProjects, FoundProjects 2,
                     ProcessingProject (PStr ''site'') (PStr ''prj_4''),
                     AttemptingToCreate (PStr ''site''), ErrorCreating (PStr ''site'')]\<rparr>"
  by (simp add: example_abort_run_def run_defs)

section \<open>Eligible and ineligible projects\<close>

lemma create_not_github:
  assumes "dict_get d ''info'' (PDict []) = PDict info"
    and "dict_get info ''link'' (PDict []) = PDict link"
    and "dict_get link ''type'' PNone \<noteq> PStr ''github''"
    and "truthy (dict_get info ''name'' PNone)"
    and "dict_get d ''env_vars'' (PList []) = PList vars"
    and "list_all env_var_shaped vars"
  shows "create_cloudflare_pages_project w cf_api_token cf_account_id (PDict d) =
           Done PNone (prints w [SkippingNotGithub (dict_get info ''name'' PNone),
                                 PagesSupportsGitOrUpload, ManualMigrationNeeded])"
proof -
  from not_github_link[OF assms(2)] assms(3)
  have ng: "not_github (dict_get info ''link'' PNone) = Inr True" by simp
  from env_var_loop_total[OF assms(6), of "([], [])"] obtain envs where
    "env_var_loop vars ([], []) = Inr envs" by blast
  then have "prepare_payload (PDict d) = Inr (NotGithub (dict_get info ''name'' PNone))"
    using assms(1,4,5) ng by (simp add: prepare_payload_def py_iter_def)
  then show ?thesis by (simp add: create_cloudflare_pages_project_def)
qed

text \<open>
  C2, as the code has it. For every project detail whose \<^verbatim>\<open>info\<close> is an object and whose
  link is absent or an object, both eligibility tests of the script (the one of the bulk
  loop and the one inside \<^verbatim>\<open>create_cloudflare_pages_project\<close>) hold if and only if
  \<^verbatim>\<open>link.type\<close> is \<^verbatim>\<open>github\<close>. In the bulk loop an eligible project goes to the creation and
  an ineligible one is skipped: two lines give the reason, no request is made, and the
  loop body returns normally. In single-project mode the creation function itself skips
  the ineligible project with a printed reason and without a request, when the project
  has a non-empty name and its environment variables have the documented shape. Nothing
  is said here of a link that is present and is not an object.
\<close>

theorem eligibility_by_link_type:
  assumes "dict_get d ''info'' (PDict []) = PDict info"
    and "dict_get info ''link'' (PDict []) = PDict link"
  shows "github_linked (PDict d) = Inr (dict_get link ''type'' PNone = PStr ''github'') \<and>
         not_github (dict_get info ''link'' PNone) =
           Inr (dict_get link ''type'' PNone \<noteq> PStr ''github'') \<and>
         (truthy (dict_get pj ''id'' PNone) \<and>
          get_vercel_project_details
            (prints w [ProcessingProject (dict_get pj ''name'' PNone) (dict_get pj ''id'' PNone)])
            (arg_vercel_token a) (dict_get pj ''id'' PNone) = Done (PDict d) w1 \<longrightarrow>
            process_project w a (PDict pj) =
              (if dict_get link ''type'' PNone = PStr ''github''
               then (case create_cloudflare_pages_project w1 (arg_cf_token a)
                            (arg_cf_account_id a) (PDict d) of
                       NoReply \<Rightarrow> NoReply
                     | Crash e w2 \<Rightarrow> Crash e w2
                     | Done created w2 \<Rightarrow> Done () w2)
               else Done ()
                      (prints w1 [SkippingAutomaticMigration (dict_get pj ''name'' PNone),
                                  ManualMigrationMightBeRequired]))) \<and>
         (dict_get link ''type'' PNone \<noteq> PStr ''github'' \<and>
          truthy (dict_get info ''name'' PNone) \<and>
          dict_get d ''env_vars'' (PList []) = PList vars \<and> list_all env_var_shaped vars \<longrightarrow>
            create_cloudflare_pages_project w cf_api_token cf_account_id (PDict d) =
              Done PNone (prints w [SkippingNotGithub (dict_get info ''name'' PNone),
                                    PagesSupportsGitOrUpload, ManualMigrationNeeded]))"
proof (intro conjI impI)
  show g: "github_linked (PDict d) = Inr (dict_get link ''type'' PNone = PStr ''github'')"
    by (rule github_linked_link[OF assms])
  show "not_github (dict_get info ''link'' PNone) =
          Inr (dict_get link ''type'' PNone \<noteq> PStr ''github'')"
    by (rule not_github_link[OF assms(2)])
  {
    assume h: "truthy (dict_get pj ''id'' PNone) \<and>
          get_vercel_project_details
            (prints w [ProcessingProject (dict_get pj ''name'' PNone) (dict_get pj ''id'' PNone)])
            (arg_vercel_token a) (dict_get pj ''id'' PNone) = Done (PDict d) w1"
    from details_result[of _ _ _ "PDict d" w1] h have "d \<noteq> []" by fastforce
    then show "process_project w a (PDict pj) =
              (if dict_get link ''type'' PNone = PStr ''github''
               then (case create_cloudflare_pages_project w1 (arg_cf_token a)
                            (arg_cf_account_id a) (PDict d) of
                       NoReply \<Rightarrow> NoReply
                     | Crash e w2 \<Rightarrow> Crash e w2
                     | Done created w2 \<Rightarrow> Done () w2)
               else Done ()
                      (prints w1 [SkippingAutomaticMigration (dict_get pj ''name'' PNone),
                                  ManualMigrationMightBeRequired]))"
      using h g by (simp add: process_project_PDict)
  }
  {
    assume "dict_get link ''type'' PNone \<noteq> PStr ''github'' \<and>
          truthy (dict_get info ''name'' PNone) \<and>
          dict_get d ''env_vars'' (PList []) = PList vars \<and> list_all env_var_shaped vars"
    then show "create_cloudflare_pages_project w cf_api_token cf_account_id (PDict d) =
              Done PNone (prints w [SkippingNotGithub (dict_get info ''name'' PNone),
                                    PagesSupportsGitOrUpload, ManualMigrationNeeded])"
      using create_not_github[OF assms] by blast
  }
qed

theorem eligibility_by_link_type_witness:
  "dict_get example_unlinked_details ''info'' (PDict []) = PDict [(PStr ''name'', PStr ''blog'')] \<and>
   dict_get [(PStr ''name'', PStr ''blog'')] ''link'' (PDict []) = PDict [] \<and>
   dict_get [] ''type'' PNone \<noteq> PStr ''github'' \<and>
   github_linked (PDict example_unlinked_details) = Inr False \<and>
   truthy (dict_get example_blog_summary ''id'' PNone) \<and>
   get_vercel_project_details
     (prints (start example_blog_run) [ProcessingProject (PStr ''blog'') (PStr ''prj_3'')])
     ''vt'' (PStr ''prj_3'') = Done (PDict example_unlinked_details) example_blog_fetched \<and>
   process_project (start example_blog_run) example_bulk_args (PDict example_blog_summary) =
     Done ()
       \<lparr>replies = [],
          sent = [Get (VercelProject (PStr ''prj_3'')) ''vt'',
                  Get (VercelProjectEnv (PStr ''prj_3'')) ''vt'',
                  Get (VercelProjectDomains (PStr ''prj_3'')) ''vt''],
          printed = [ProcessingProject (PStr ''blog'') (PStr ''prj_3''),
                     SkippingAutomaticMigration (PStr ''blog''),
                     ManualMigrationMightBeRequired]\<rparr> \<and>
   truthy (dict_get [(PStr ''name'', PStr ''blog'')] ''name'' PNone) \<and>
   dict_get example_unlinked_details ''env_vars'' (PList []) = PList [] \<and>
   create_cloudflare_pages_project (start []) ''ct'' ''acct'' (PDict example_unlinked_details) =
     Done PNone
       \<lparr>replies = [], sent = [],
          printed = [SkippingNotGithub (PStr ''blog''), PagesSupportsGitOrUpload,
                     ManualMigrationNeeded]\<rparr> \<and>
   dict_get example_details ''info'' (PDict []) = PDict example_info \<and>
   dict_get example_info ''link'' (PDict []) = PDict example_link \<and>
   github_linked (PDict example_details) = Inr True"
proof -
  have i: "dict_get example_unlinked_details ''info'' (PDict [])
             = PDict [(PStr ''name'', PStr ''blog'')]"
    "dict_get [(PStr ''name'', PStr ''blog'')] ''link'' (PDict []) = PDict []"
    "dict_get example_unlinked_details ''env_vars'' (PList []) = PList []"
    by (simp_all add: example_unlinked_details_def dict_get_def)
  have j: "dict_get example_details ''info'' (PDict []) = PDict example_info"
    "dict_get example_info ''link'' (PDict []) = PDict example_link"
    "dict_get example_link ''type'' PNone = PStr ''github''"
    by (simp_all add: example_details_def example_info_def example_link_def dict_get_def)
  have f: "get_vercel_project_details
     (prints (start example_blog_run) [ProcessingProject (PStr ''blog'') (PStr ''prj_3'')])
     ''vt'' (PStr ''prj_3'') = Done (PDict example_unlinked_details) example_blog_fetched"
    by (simp add: example_blog_run_def example_blog_fetched_def example_unlinked_details_def
        get_vercel_project_details_def fetch_list_def fetched_def http_error_def dict_get_def
        start_def prints_def)
  have k: "dict_get example_blog_summary ''id'' PNone = PStr ''prj_3''"
    "dict_get example_blog_summary ''name'' PNone = PStr ''blog''"
    "dict_get [] ''type'' PNone = PNone"
    "dict_get [(PStr ''name'', PStr ''blog'')] ''name'' PNone = PStr ''blog''"
    by (simp_all add: example_blog_summary_def dict_get_def)
  note a = eligibility_by_link_type[OF i(1,2), where pj = example_blog_summary
      and w = "start example_blog_run" and a = example_bulk_args and ?w1.0 = example_blog_fetched]
  note c = eligibility_by_link_type[OF i(1,2), where w = "start []" and vars = "[]"
      and cf_api_token = "''ct''" and cf_account_id = "''acct''"]
  note b = eligibility_by_link_type[OF j(1,2)]
  have "github_linked (PDict example_details) = Inr True"
    using b j(3) by simp
  moreover have "github_linked (PDict example_unlinked_details) = Inr False"
    using a k by simp
  moreover have "process_project (start example_blog_run) example_bulk_args
        (PDict example_blog_summary) =
     Done ()
       \<lparr>replies = [],
          sent = [Get (VercelProject (PStr ''prj_3'')) ''vt'',
                  Get (VercelProjectEnv (PStr ''prj_3'')) ''vt'',
                  Get (VercelProjectDomains (PStr ''prj_3'')) ''vt''],
          printed = [ProcessingProject (PStr ''blog'') (PStr ''prj_3''),
                     SkippingAutomaticMigration (PStr ''blog''),
                     ManualMigrationMightBeRequired]\<rparr>"
    using a k f by (simp add: example_bulk_args_def example_blog_fetched_def prints_def)
  moreover have "create_cloudflare_pages_project (start []) ''ct'' ''acct''
        (PDict example_unlinked_details) =
     Done PNone
       \<lparr>replies = [], sent = [],
          printed = [SkippingNotGithub (PStr ''blog''), PagesSupportsGitOrUpload,
                     ManualMigrationNeeded]\<rparr>"
    using c k i(3) by (simp add: start_def prints_def)
  ultimately show ?thesis
    using i j(1,2) k f by simp
qed

section \<open>The bulk run\<close>

lemma main_bulk:
  assumes "arg_project_id a = None"
    and "get_vercel_projects (prints w [FetchingProjects]) (arg_vercel_token a)
           = Done (PList ps) w3"
    and "ps \<noteq> []"
    and "process_projects (prints w3 [FoundProjects (length ps)]) a ps = Done u w4"
  shows "main w a = Done () (prints w4 [MigrationFinished])"
  using assms by (simp add: main_def py_iter_def)

lemma dict_get_present:
  assumes "dict_get kvs k (PDict []) = PDict link" and "link \<noteq> []"
  shows "dict_get kvs k PNone = PDict link"
  using assms by (cases "map_of kvs (PStr k)") (simp_all add: dict_get_def)

lemma process_project_fetched:
  assumes "truthy (dict_get pj ''id'' PNone)"
    and "replies w = Response st (Some (PDict info)) # r2 # r3 # rest"
    and "\<not> (400 \<le> st \<and> st < 600)"
    and "schema_reply ''envs'' r2" and "schema_reply ''domains'' r3"
    and "dict_get info ''link'' (PDict []) = PDict link"
    and "w1 = expected_details_world
                (prints w [ProcessingProject (dict_get pj ''name'' PNone)
                             (dict_get pj ''id'' PNone)])
                (arg_vercel_token a) (dict_get pj ''id'' PNone) r2 r3 rest"
    and "details = PDict [(PStr ''info'', PDict info),
                          (PStr ''env_vars'', PList (expected_list ''envs'' r2)),
                          (PStr ''domains'', PList (expected_list ''domains'' r3))]"
  shows "process_project w a (PDict pj) =
           (if dict_get link ''type'' PNone = PStr ''github''
            then (case create_cloudflare_pages_project w1 (arg_cf_token a)
                         (arg_cf_account_id a) details of
                    NoReply \<Rightarrow> NoReply
                  | Crash e w2 \<Rightarrow> Crash e w2
                  | Done created w2 \<Rightarrow> Done () w2)
            else Done () (prints w1 [SkippingAutomaticMigration (dict_get pj ''name'' PNone),
                                     ManualMigrationMightBeRequired]))"
proof -
  let ?w0 = "prints w [ProcessingProject (dict_get pj ''name'' PNone) (dict_get pj ''id'' PNone)]"
  have r: "replies ?w0 = Response st (Some (PDict info)) # r2 # r3 # rest"
    using assms(2) by simp
  have d: "get_vercel_project_details ?w0 (arg_vercel_token a) (dict_get pj ''id'' PNone)
             = Done details w1"
    using details_expected[OF r assms(3,4,5)] assms(7,8) by simp
  have i: "dict_get [(PStr ''info'', PDict info),
                     (PStr ''env_vars'', PList (expected_list ''envs'' r2)),
                     (PStr ''domains'', PList (expected_list ''domains'' r3))] ''info'' (PDict [])
             = PDict info"
    by (simp add: dict_get_def)
  have g: "github_linked details = Inr (dict_get link ''type'' PNone = PStr ''github'')"
    using github_linked_link[OF i assms(6)] assms(8) by simp
  have t: "truthy details" using assms(8) by simp
  show ?thesis
    using assms(1) d g t by (simp add: process_project_PDict)
qed

lemma create_missing_name:
  assumes "\<not> truthy (dict_get info ''name'' PNone)"
    and "details = PDict [(PStr ''info'', PDict info), (PStr ''env_vars'', e),
                          (PStr ''domains'', dm)]"
  shows "create_cloudflare_pages_project w cf_api_token cf_account_id details =
           Done PNone (prints w [SkippingMissingName])"
proof -
  have "dict_get [(PStr ''info'', PDict info), (PStr ''env_vars'', e), (PStr ''domains'', dm)]
          ''info'' (PDict []) = PDict info"
    by (simp add: dict_get_def)
  from prepare_payload_missing_name[OF this] assms
  have "prepare_payload details = Inr MissingName" by simp
  then show ?thesis by (simp add: create_cloudflare_pages_project_def)
qed

lemma create_rejected_exact:
  assumes "prepare_payload details = Inr (Payload n p)"
    and "replies w = Response st body # rest"
    and "400 \<le> st \<and> st < 600 \<or> body = None"
  shows "create_cloudflare_pages_project w cf_api_token cf_account_id details =
           Done PNone
             (w\<lparr>replies := rest,
                sent := sent w @ [Post (CloudflarePagesProjects cf_account_id) cf_api_token p],
                printed := printed w @ [AttemptingToCreate n, ErrorCreating n,
                                        ResponseStatus st, ResponseText body]\<rparr>)"
  using assms
  by (auto simp: create_cloudflare_pages_project_def create_handler_def http_error_def prints_def)

lemma prepare_payload_fetched:
  assumes "dict_get info ''link'' (PDict []) = PDict link"
    and "dict_get link ''type'' PNone = PStr ''github''"
    and "truthy (dict_get info ''name'' PNone)"
    and "list_all env_var_shaped vars"
    and "details = PDict [(PStr ''info'', PDict info), (PStr ''env_vars'', PList vars),
                          (PStr ''domains'', dm)]"
  shows "\<exists>p. prepare_payload details = Inr (Payload (dict_get info ''name'' PNone) p)"
proof -
  have ne: "link \<noteq> []" using assms(2) by (auto simp: dict_get_def)
  have l: "dict_get info ''link'' PNone = PDict link"
    by (rule dict_get_present[OF assms(1) ne])
  have i: "dict_get [(PStr ''info'', PDict info), (PStr ''env_vars'', PList vars),
                     (PStr ''domains'', dm)] ''info'' (PDict []) = PDict info"
    and e: "dict_get [(PStr ''info'', PDict info), (PStr ''env_vars'', PList vars),
                      (PStr ''domains'', dm)] ''env_vars'' (PList []) = PList vars"
    by (simp_all add: dict_get_def)
  from prepare_payload_shaped[OF i assms(3) l assms(2) e assms(4)] assms(5)
  show ?thesis by blast
qed

text \<open>
  C8, as the code has it. In bulk mode the loop body returns normally, with these printed
  lines, for a project without an id, for a failed request for the core info, for a link
  that is absent or has another type, for a GitHub project with a missing name, and for a
  creation request answered with an error status or with a body that is not JSON; the
  loop then goes on with the projects that follow. A run that returns has printed the
  processing line of every listed project, in the order of the list. The program keeps no
  counts: after the last project it prints that the migration is finished and returns
  nothing. (The project summary and the core info are objects, Vercel answers the two
  secondary requests as its interface says, and for the creation request the environment
  variables have the documented shape.)
\<close>

theorem bulk_run_continues:
  assumes "pid = dict_get pj ''id'' PNone" and "nm = dict_get pj ''name'' PNone"
    and "w1 = expected_details_world (prints w [ProcessingProject nm pid])
                (arg_vercel_token a) pid r2 r3 rest"
    and "details = PDict [(PStr ''info'', PDict info),
                          (PStr ''env_vars'', PList (expected_list ''envs'' r2)),
                          (PStr ''domains'', PList (expected_list ''domains'' r3))]"
  shows
    "(\<not> truthy pid \<longrightarrow>
        process_project w a (PDict pj) =
          Done () (prints w [ProcessingProject nm pid, SkippingMissingId])) \<and>
     (truthy pid \<and> replies w = r1 # rest1 \<and> request_failed r1 \<longrightarrow>
        process_project w a (PDict pj) =
          Done () (w\<lparr>replies := rest1,
                      sent := sent w @ [Get (VercelProject pid) (arg_vercel_token a)],
                      printed := printed w @ [ProcessingProject nm pid, ErrorFetchingInfo pid,
                                              SkippingFailedDetails nm]\<rparr>)) \<and>
     (truthy pid \<and> replies w = Response st (Some (PDict info)) # r2 # r3 # rest \<and>
      \<not> (400 \<le> st \<and> st < 600) \<and> schema_reply ''envs'' r2 \<and> schema_reply ''domains'' r3 \<and>
      dict_get info ''link'' (PDict []) = PDict link \<longrightarrow>
        (dict_get link ''type'' PNone \<noteq> PStr ''github'' \<longrightarrow>
           process_project w a (PDict pj) =
             Done () (prints w1 [SkippingAutomaticMigration nm,
                                 ManualMigrationMightBeRequired])) \<and>
        (dict_get link ''type'' PNone = PStr ''github'' \<and>
         \<not> truthy (dict_get info ''name'' PNone) \<longrightarrow>
           process_project w a (PDict pj) = Done () (prints w1 [SkippingMissingName])) \<and>
        (dict_get link ''type'' PNone = PStr ''github'' \<and>
         truthy (dict_get info ''name'' PNone) \<and>
         list_all env_var_shaped (expected_list ''envs'' r2) \<and>
         rest = Response st4 body4 # rest4 \<and> (400 \<le> st4 \<and> st4 < 600 \<or> body4 = None) \<longrightarrow>
           (\<exists>p. prepare_payload details = Inr (Payload (dict_get info ''name'' PNone) p) \<and>
                process_project w a (PDict pj) =
                  Done ()
                    (w1\<lparr>replies := rest4,
                        sent := sent w1 @ [Post (CloudflarePagesProjects (arg_cf_account_id a))
                                             (arg_cf_token a) p],
                        printed := printed w1 @
                          [AttemptingToCreate (dict_get info ''name'' PNone),
                           ErrorCreating (dict_get info ''name'' PNone),
                           ResponseStatus st4, ResponseText body4]\<rparr>)))) \<and>
     (process_project w a project = Done u w' \<longrightarrow>
        process_projects w a (project # others) = process_projects w' a others) \<and>
     (process_projects w a ps = Done u w2 \<longrightarrow>
        filter is_processing (printed w2) =
          filter is_processing (printed w) @ map processing_line ps) \<and>
     (arg_project_id a = None \<and>
      get_vercel_projects (prints w [FetchingProjects]) (arg_vercel_token a)
        = Done (PList ps) w3 \<and>
      ps \<noteq> [] \<and>
      process_projects (prints w3 [FoundProjects (length ps)]) a ps = Done u w4 \<longrightarrow>
        main w a = Done () (prints w4 [MigrationFinished]))"
proof -
  have k1: "\<not> truthy pid \<longrightarrow>
        process_project w a (PDict pj) =
          Done () (prints w [ProcessingProject nm pid, SkippingMissingId])"
    using assms(1,2) by (simp add: process_project_PDict)
  have k2: "truthy pid \<and> replies w = r1 # rest1 \<and> request_failed r1 \<longrightarrow>
        process_project w a (PDict pj) =
          Done () (w\<lparr>replies := rest1,
                      sent := sent w @ [Get (VercelProject pid) (arg_vercel_token a)],
                      printed := printed w @ [ProcessingProject nm pid, ErrorFetchingInfo pid,
                                              SkippingFailedDetails nm]\<rparr>)"
  proof
    assume h: "truthy pid \<and> replies w = r1 # rest1 \<and> request_failed r1"
    then have "replies (prints w [ProcessingProject nm pid]) = r1 # rest1" by simp
    from details_failed[OF this, of "arg_vercel_token a" pid] h
    show "process_project w a (PDict pj) =
          Done () (w\<lparr>replies := rest1,
                      sent := sent w @ [Get (VercelProject pid) (arg_vercel_token a)],
                      printed := printed w @ [ProcessingProject nm pid, ErrorFetchingInfo pid,
                                              SkippingFailedDetails nm]\<rparr>)"
      using assms(1,2) by (simp add: process_project_PDict prints_def)
  qed
  have k345: "truthy pid \<and> replies w = Response st (Some (PDict info)) # r2 # r3 # rest \<and>
      \<not> (400 \<le> st \<and> st < 600) \<and> schema_reply ''envs'' r2 \<and> schema_reply ''domains'' r3 \<and>
      dict_get info ''link'' (PDict []) = PDict link \<longrightarrow>
        (dict_get link ''type'' PNone \<noteq> PStr ''github'' \<longrightarrow>
           process_project w a (PDict pj) =
             Done () (prints w1 [SkippingAutomaticMigration nm,
                                 ManualMigrationMightBeRequired])) \<and>
        (dict_get link ''type'' PNone = PStr ''github'' \<and>
         \<not> truthy (dict_get info ''name'' PNone) \<longrightarrow>
           process_project w a (PDict pj) = Done () (prints w1 [SkippingMissingName])) \<and>
        (dict_get link ''type'' PNone = PStr ''github'' \<and>
         truthy (dict_get info ''name'' PNone) \<and>
         list_all env_var_shaped (expected_list ''envs'' r2) \<and>
         rest = Response st4 body4 # rest4 \<and> (400 \<le> st4 \<and> st4 < 600 \<or> body4 = None) \<longrightarrow>
           (\<exists>p. prepare_payload details = Inr (Payload (dict_get info ''name'' PNone) p) \<and>
                process_project w a (PDict pj) =
                  Done ()
                    (w1\<lparr>replies := rest4,
                        sent := sent w1 @ [Post (CloudflarePagesProjects (arg_cf_account_id a))
                                             (arg_cf_token a) p],
                        printed := printed w1 @
                          [AttemptingToCreate (dict_get info ''name'' PNone),
                           ErrorCreating (dict_get info ''name'' PNone),
                           ResponseStatus st4, ResponseText body4]\<rparr>)))"
  proof (intro impI)
    assume f: "truthy pid \<and> replies w = Response st (Some (PDict info)) # r2 # r3 # rest \<and>
      \<not> (400 \<le> st \<and> st < 600) \<and> schema_reply ''envs'' r2 \<and> schema_reply ''domains'' r3 \<and>
      dict_get info ''link'' (PDict []) = PDict link"
    have step: "process_project w a (PDict pj) =
           (if dict_get link ''type'' PNone = PStr ''github''
            then (case create_cloudflare_pages_project w1 (arg_cf_token a)
                         (arg_cf_account_id a) details of
                    NoReply \<Rightarrow> NoReply
                  | Crash e w2 \<Rightarrow> Crash e w2
                  | Done created w2 \<Rightarrow> Done () w2)
            else Done () (prints w1 [SkippingAutomaticMigration nm,
                                     ManualMigrationMightBeRequired]))"
      using process_project_fetched[of pj w st info r2 r3 rest link w1 a details] f assms
      by simp
    have rw1: "replies w1 = rest"
      using assms(3) by (simp add: expected_details_world_def)
    have a3: "dict_get link ''type'' PNone \<noteq> PStr ''github'' \<longrightarrow>
           process_project w a (PDict pj) =
             Done () (prints w1 [SkippingAutomaticMigration nm,
                                 ManualMigrationMightBeRequired])"
      using step by simp
    have a4: "dict_get link ''type'' PNone = PStr ''github'' \<and>
         \<not> truthy (dict_get info ''name'' PNone) \<longrightarrow>
           process_project w a (PDict pj) = Done () (prints w1 [SkippingMissingName])"
      using step create_missing_name[OF _ assms(4), of w1 "arg_cf_token a" "arg_cf_account_id a"]
      by simp
    have a5: "dict_get link ''type'' PNone = PStr ''github'' \<and>
         truthy (dict_get info ''name'' PNone) \<and>
         list_all env_var_shaped (expected_list ''envs'' r2) \<and>
         rest = Response st4 body4 # rest4 \<and> (400 \<le> st4 \<and> st4 < 600 \<or> body4 = None) \<longrightarrow>
           (\<exists>p. prepare_payload details = Inr (Payload (dict_get info ''name'' PNone) p) \<and>
                process_project w a (PDict pj) =
                  Done ()
                    (w1\<lparr>replies := rest4,
                        sent := sent w1 @ [Post (CloudflarePagesProjects (arg_cf_account_id a))
                                             (arg_cf_token a) p],
                        printed := printed w1 @
                          [AttemptingToCreate (dict_get info ''name'' PNone),
                           ErrorCreating (dict_get info ''name'' PNone),
                           ResponseStatus st4, ResponseText body4]\<rparr>))"
    proof
      assume h: "dict_get link ''type'' PNone = PStr ''github'' \<and>
         truthy (dict_get info ''name'' PNone) \<and>
         list_all env_var_shaped (expected_list ''envs'' r2) \<and>
         rest = Response st4 body4 # rest4 \<and> (400 \<le> st4 \<and> st4 < 600 \<or> body4 = None)"
      from f h have l: "dict_get info ''link'' (PDict []) = PDict link"
        and t: "dict_get link ''type'' PNone = PStr ''github''"
        and n: "truthy (dict_get info ''name'' PNone)"
        and e: "list_all env_var_shaped (expected_list ''envs'' r2)"
        by simp_all
      from prepare_payload_fetched[OF l t n e assms(4)] obtain p where
        p: "prepare_payload details = Inr (Payload (dict_get info ''name'' PNone) p)" by blast
      from h rw1 have r4: "replies w1 = Response st4 body4 # rest4" by simp
      from h have bad: "400 \<le> st4 \<and> st4 < 600 \<or> body4 = None" by simp
      note c = create_rejected_exact[OF p r4 bad, of "arg_cf_token a" "arg_cf_account_id a"]
      show "\<exists>p. prepare_payload details = Inr (Payload (dict_get info ''name'' PNone) p) \<and>
                process_project w a (PDict pj) =
                  Done ()
                    (w1\<lparr>replies := rest4,
                        sent := sent w1 @ [Post (CloudflarePagesProjects (arg_cf_account_id a))
                                             (arg_cf_token a) p],
                        printed := printed w1 @
                          [AttemptingToCreate (dict_get info ''name'' PNone),
                           ErrorCreating (dict_get info ''name'' PNone),
                           ResponseStatus st4, ResponseText body4]\<rparr>)"
        using p c step t by auto
    qed
    from a3 a4 a5 show "(dict_get link ''type'' PNone \<noteq> PStr ''github'' \<longrightarrow>
           process_project w a (PDict pj) =
             Done () (prints w1 [SkippingAutomaticMigration nm,
                                 ManualMigrationMightBeRequired])) \<and>
        (dict_get link ''type'' PNone = PStr ''github'' \<and>
         \<not> truthy (dict_get info ''name'' PNone) \<longrightarrow>
           process_project w a (PDict pj) = Done () (prints w1 [SkippingMissingName])) \<and>
        (dict_get link ''type'' PNone = PStr ''github'' \<and>
         truthy (dict_get info ''name'' PNone) \<and>
         list_all env_var_shaped (expected_list ''envs'' r2) \<and>
         rest = Response st4 body4 # rest4 \<and> (400 \<le> st4 \<and> st4 < 600 \<or> body4 = None) \<longrightarrow>
           (\<exists>p. prepare_payload details = Inr (Payload (dict_get info ''name'' PNone) p) \<and>
                process_project w a (PDict pj) =
                  Done ()
                    (w1\<lparr>replies := rest4,
                        sent := sent w1 @ [Post (CloudflarePagesProjects (arg_cf_account_id a))
                                             (arg_cf_token a) p],
                        printed := printed w1 @
                          [AttemptingToCreate (dict_get info ''name'' PNone),
                           ErrorCreating (dict_get info ''name'' PNone),
                           ResponseStatus st4, ResponseText body4]\<rparr>)))"
      by blast
  qed
  have lp: "process_project w a project = Done u w' \<longrightarrow>
        process_projects w a (project # others) = process_projects w' a others"
    by simp
  have tr: "process_projects w a ps = Done u w2 \<longrightarrow>
        filter is_processing (printed w2) =
          filter is_processing (printed w) @ map processing_line ps"
    using process_projects_trace by blast
  have mn: "arg_project_id a = None \<and>
      get_vercel_projects (prints w [FetchingProjects]) (arg_vercel_token a)
        = Done (PList ps) w3 \<and>
      ps \<noteq> [] \<and>
      process_projects (prints w3 [FoundProjects (length ps)]) a ps = Done u w4 \<longrightarrow>
        main w a = Done () (prints w4 [MigrationFinished])"
    using main_bulk by blast
  from k1 k2 k345 lp tr mn show ?thesis by blast
qed

theorem bulk_run_continues_witness:
  "\<not> truthy (dict_get [(PStr ''name'', PStr ''noid'')] ''id'' PNone) \<and>
   process_project (start []) example_bulk_args (PDict [(PStr ''name'', PStr ''noid'')]) =
     Done () \<lparr>replies = [], sent = [],
              printed = [ProcessingProject (PStr ''noid'') PNone, SkippingMissingId]\<rparr> \<and>
   truthy (dict_get example_down_summary ''id'' PNone) \<and>
   request_failed (Response 500 (Some (PDict [(PStr ''error'', PStr ''down'')]))) \<and>
   process_project (start [Response 500 (Some (PDict [(PStr ''error'', PStr ''down'')]))])
       example_bulk_args (PDict example_down_summary) =
     Done () \<lparr>replies = [], sent = [Get (VercelProject (PStr ''prj_2'')) ''vt''],
              printed = [ProcessingProject (PStr ''down'') (PStr ''prj_2''),
                         ErrorFetchingInfo (PStr ''prj_2''),
                         SkippingFailedDetails (PStr ''down'')]\<rparr> \<and>
   truthy (dict_get example_blog_summary ''id'' PNone) \<and>
   schema_reply ''envs'' (Response 200 (Some (PDict [(PStr ''envs'', PList [])]))) \<and>
   schema_reply ''domains'' (Response 200 (Some (PDict [(PStr ''domains'', PList [])]))) \<and>
   dict_get [(PStr ''name'', PStr ''blog'')] ''link'' (PDict []) = PDict [] \<and>
   dict_get [] ''type'' PNone \<noteq> PStr ''github'' \<and>
   process_project (start example_blog_run) example_bulk_args (PDict example_blog_summary) =
     Done ()
       \<lparr>replies = [],
          sent = [Get (VercelProject (PStr ''prj_3'')) ''vt'',
                  Get (VercelProjectEnv (PStr ''prj_3'')) ''vt'',
                  Get (VercelProjectDomains (PStr ''prj_3'')) ''vt''],
          printed = [ProcessingProject (PStr ''blog'') (PStr ''prj_3''),
                     SkippingAutomaticMigration (PStr ''blog''),
                     ManualMigrationMightBeRequired]\<rparr> \<and>
   truthy (dict_get example_ghost_summary ''id'' PNone) \<and>
   dict_get example_nameless_info ''link'' (PDict []) = PDict example_link \<and>
   dict_get example_link ''type'' PNone = PStr ''github'' \<and>
   \<not> truthy (dict_get example_nameless_info ''name'' PNone) \<and>
   process_project
       (start [Response 200 (Some (PDict example_nameless_info)),
               Response 200 (Some (PDict [(PStr ''envs'', PList [])])),
               Response 200 (Some (PDict [(PStr ''domains'', PList [])]))])
       example_bulk_args (PDict example_ghost_summary) =
     Done ()
       \<lparr>replies = [],
          sent = [Get (VercelProject (PStr ''prj_6'')) ''vt'',
                  Get (VercelProjectEnv (PStr ''prj_6'')) ''vt'',
                  Get (VercelProjectDomains (PStr ''prj_6'')) ''vt''],
          printed = [ProcessingProject (PStr ''ghost'') (PStr ''prj_6''),
                     SkippingMissingName]\<rparr> \<and>
   truthy (dict_get example_site_summary ''id'' PNone) \<and>
   schema_reply ''envs'' (Response 200 (Some (PDict [(PStr ''envs'', PList example_env_vars)]))) \<and>
   schema_reply ''domains'' ConnectionFailed \<and>
   dict_get example_info ''link'' (PDict []) = PDict example_link \<and>
   truthy (dict_get example_info ''name'' PNone) \<and>
   list_all env_var_shaped
     (expected_list ''envs''
        (Response 200 (Some (PDict [(PStr ''envs'', PList example_env_vars)])))) \<and>
   process_project
       (start [Response 200 (Some (PDict example_info)),
               Response 200 (Some (PDict [(PStr ''envs'', PList example_env_vars)])),
               ConnectionFailed, Response 422 None])
       example_bulk_args (PDict example_site_summary) =
     Done ()
       \<lparr>replies = [],
          sent = [Get (VercelProject (PStr ''prj_4'')) ''vt'',
                  Get (VercelProjectEnv (PStr ''prj_4'')) ''vt'',
                  Get (VercelProjectDomains (PStr ''prj_4'')) ''vt'',
                  Post (CloudflarePagesProjects ''acct'') ''ct'' example_payload],
          printed = [ProcessingProject (PStr ''site'') (PStr ''prj_4''),
                     ErrorFetchingDomains (PStr ''prj_4''),
                     AttemptingToCreate (PStr ''site''), ErrorCreating (PStr ''site''),
                     ResponseStatus 422, ResponseText None]\<rparr> \<and>
   process_projects (start []) example_bulk_args [PDict [(PStr ''name'', PStr ''noid'')]] =
     Done () \<lparr>replies = [], sent = [],
              printed = [ProcessingProject (PStr ''noid'') PNone, SkippingMissingId]\<rparr> \<and>
   arg_project_id example_bulk_args = None \<and>
   get_vercel_projects (prints (start example_run) [FetchingProjects])
     (arg_vercel_token example_bulk_args) = Done (PList example_summaries) example_listed \<and>
   example_summaries \<noteq> [] \<and>
   process_projects (prints example_listed [FoundProjects (length example_summaries)])
     example_bulk_args example_summaries = Done () example_run_end \<and>
   filter is_processing (printed example_run_end) = map processing_line example_summaries \<and>
   main (start example_run) example_bulk_args =
     Done () (prints example_run_end [MigrationFinished])"
proof -
  let ?noenvs = "Response 200 (Some (PDict [(PStr ''envs'', PList [])]))"
  let ?nodoms = "Response 200 (Some (PDict [(PStr ''domains'', PList [])]))"
  let ?envs = "Response 200 (Some (PDict [(PStr ''envs'', PList example_env_vars)]))"
  let ?down = "Response 500 (Some (PDict [(PStr ''error'', PStr ''down'')]))"
  have ids: "\<not> truthy (dict_get [(PStr ''name'', PStr ''noid'')] ''id'' PNone)"
    "dict_get [(PStr ''name'', PStr ''noid'')] ''id'' PNone = PNone"
    "dict_get [(PStr ''name'', PStr ''noid'')] ''name'' PNone = PStr ''noid''"
    "dict_get example_down_summary ''id'' PNone = PStr ''prj_2''"
    "dict_get example_down_summary ''name'' PNone = PStr ''down''"
    "dict_get example_blog_summary ''id'' PNone = PStr ''prj_3''"
    "dict_get example_blog_summary ''name'' PNone = PStr ''blog''"
    "dict_get example_ghost_summary ''id'' PNone = PStr ''prj_6''"
    "dict_get example_ghost_summary ''name'' PNone = PStr ''ghost''"
    "dict_get example_site_summary ''id'' PNone = PStr ''prj_4''"
    "dict_get example_site_summary ''name'' PNone = PStr ''site''"
    by (simp_all add: dict_get_def example_down_summary_def example_blog_summary_def
        example_ghost_summary_def example_site_summary_def)
  have rf: "request_failed ?down" "request_failed ConnectionFailed"
    "\<not> request_failed ?noenvs" "\<not> request_failed ?nodoms" "\<not> request_failed ?envs"
    by (simp_all add: request_failed_def)
  have sc: "schema_reply ''envs'' ?noenvs" "schema_reply ''domains'' ?nodoms"
    "schema_reply ''envs'' ?envs" "schema_reply ''domains'' ConnectionFailed"
    by (simp_all add: schema_reply_def request_failed_def list_field_body_def dict_get_def)
  have el: "expected_list ''envs'' ?noenvs = []" "expected_list ''domains'' ?nodoms = []"
    "expected_list ''envs'' ?envs = example_env_vars"
    "expected_list ''domains'' ConnectionFailed = []"
    by (simp_all add: expected_list_def dict_get_def)
  have lk: "dict_get [(PStr ''name'', PStr ''blog'')] ''link'' (PDict []) = PDict []"
    "dict_get [] ''type'' PNone \<noteq> PStr ''github''"
    "dict_get example_nameless_info ''link'' (PDict []) = PDict example_link"
    "dict_get example_link ''type'' PNone = PStr ''github''"
    "\<not> truthy (dict_get example_nameless_info ''name'' PNone)"
    "dict_get example_info ''link'' (PDict []) = PDict example_link"
    "dict_get example_info ''name'' PNone = PStr ''site''"
    by (simp_all add: dict_get_def example_nameless_info_def example_link_def example_info_def)
  have st: "replies (start rs) = rs" "sent (start rs) = []" "printed (start rs) = []" for rs
    by (simp_all add: start_def)
  have ar: "arg_vercel_token example_bulk_args = ''vt''" "arg_cf_token example_bulk_args = ''ct''"
    "arg_cf_account_id example_bulk_args = ''acct''" "arg_project_id example_bulk_args = None"
    by (simp_all add: example_bulk_args_def)
  have shaped: "list_all env_var_shaped example_env_vars"
    by (rule example_details_facts(6))
  note k1 = bulk_run_continues[OF refl refl refl refl,
      where pj = "[(PStr ''name'', PStr ''noid'')]" and w = "start []" and a = example_bulk_args
      and project = "PDict [(PStr ''name'', PStr ''noid'')]" and others = "[]" and u = "()"
      and w' = "\<lparr>replies = [], sent = [],
                  printed = [ProcessingProject (PStr ''noid'') PNone, SkippingMissingId]\<rparr>"]
  note k2 = bulk_run_continues[OF refl refl refl refl,
      where pj = example_down_summary and w = "start [?down]" and a = example_bulk_args
      and ?r1.0 = ?down and ?rest1.0 = "[]"]
  note k3 = bulk_run_continues[OF refl refl refl refl,
      where pj = example_blog_summary and w = "start example_blog_run" and a = example_bulk_args
      and st = 200 and info = "[(PStr ''name'', PStr ''blog'')]" and ?r2.0 = ?noenvs
      and ?r3.0 = ?nodoms and rest = "[]" and link = "[]"]
  note k4 = bulk_run_continues[OF refl refl refl refl,
      where pj = example_ghost_summary
      and w = "start [Response 200 (Some (PDict example_nameless_info)), ?noenvs, ?nodoms]"
      and a = example_bulk_args
      and st = 200 and info = example_nameless_info and ?r2.0 = ?noenvs
      and ?r3.0 = ?nodoms and rest = "[]" and link = example_link]
  note k5 = bulk_run_continues[OF refl refl refl refl,
      where pj = example_site_summary
      and w = "start [Response 200 (Some (PDict example_info)), ?envs, ConnectionFailed,
                      Response 422 None]"
      and a = example_bulk_args
      and st = 200 and info = example_info and ?r2.0 = ?envs
      and ?r3.0 = ConnectionFailed and rest = "[Response 422 None]" and link = example_link
      and ?st4.0 = 422 and ?body4.0 = None and ?rest4.0 = "[]"]
  note tr = bulk_run_continues[OF refl refl refl refl,
      where w = "prints example_listed [FoundProjects (length example_summaries)]"
      and a = example_bulk_args and ps = example_summaries and ?w2.0 = example_run_end
      and u = "()"]
  note mn = bulk_run_continues[OF refl refl refl refl,
      where w = "start example_run" and a = example_bulk_args
      and ps = example_summaries and ?w3.0 = example_listed and ?w4.0 = example_run_end
      and u = "()"]
  have K1: "process_project (start []) example_bulk_args (PDict [(PStr ''name'', PStr ''noid'')]) =
     Done () \<lparr>replies = [], sent = [],
              printed = [ProcessingProject (PStr ''noid'') PNone, SkippingMissingId]\<rparr>"
    using k1 ids by (simp add: start_def prints_def)
  have L: "process_projects (start []) example_bulk_args [PDict [(PStr ''name'', PStr ''noid'')]] =
     Done () \<lparr>replies = [], sent = [],
              printed = [ProcessingProject (PStr ''noid'') PNone, SkippingMissingId]\<rparr>"
    using k1 K1 by simp
  have K2: "process_project (start [?down]) example_bulk_args (PDict example_down_summary) =
     Done () \<lparr>replies = [], sent = [Get (VercelProject (PStr ''prj_2'')) ''vt''],
              printed = [ProcessingProject (PStr ''down'') (PStr ''prj_2''),
                         ErrorFetchingInfo (PStr ''prj_2''),
                         SkippingFailedDetails (PStr ''down'')]\<rparr>"
    using k2 ids rf ar by (simp add: start_def)
  have K3: "process_project (start example_blog_run) example_bulk_args
              (PDict example_blog_summary) =
     Done ()
       \<lparr>replies = [],
          sent = [Get (VercelProject (PStr ''prj_3'')) ''vt'',
                  Get (VercelProjectEnv (PStr ''prj_3'')) ''vt'',
                  Get (VercelProjectDomains (PStr ''prj_3'')) ''vt''],
          printed = [ProcessingProject (PStr ''blog'') (PStr ''prj_3''),
                     SkippingAutomaticMigration (PStr ''blog''),
                     ManualMigrationMightBeRequired]\<rparr>"
    using k3 ids rf sc lk ar
    by (simp add: start_def example_blog_run_def expected_details_world_def prints_def)
  have K4: "process_project
       (start [Response 200 (Some (PDict example_nameless_info)), ?noenvs, ?nodoms])
       example_bulk_args (PDict example_ghost_summary) =
     Done ()
       \<lparr>replies = [],
          sent = [Get (VercelProject (PStr ''prj_6'')) ''vt'',
                  Get (VercelProjectEnv (PStr ''prj_6'')) ''vt'',
                  Get (VercelProjectDomains (PStr ''prj_6'')) ''vt''],
          printed = [ProcessingProject (PStr ''ghost'') (PStr ''prj_6''),
                     SkippingMissingName]\<rparr>"
    using k4 ids rf sc lk ar
    by (simp add: start_def expected_details_world_def prints_def)
  have pe: "prepare_payload
              (PDict [(PStr ''info'', PDict example_info),
                      (PStr ''env_vars'', PList example_env_vars),
                      (PStr ''domains'', PList [])])
              = Inr (Payload (PStr ''site'') example_payload)"
    using prepare_payload_example by (simp add: example_details_def)
  have K5: "process_project
       (start [Response 200 (Some (PDict example_info)), ?envs, ConnectionFailed,
               Response 422 None])
       example_bulk_args (PDict example_site_summary) =
     Done ()
       \<lparr>replies = [],
          sent = [Get (VercelProject (PStr ''prj_4'')) ''vt'',
                  Get (VercelProjectEnv (PStr ''prj_4'')) ''vt'',
                  Get (VercelProjectDomains (PStr ''prj_4'')) ''vt'',
                  Post (CloudflarePagesProjects ''acct'') ''ct'' example_payload],
          printed = [ProcessingProject (PStr ''site'') (PStr ''prj_4''),
                     ErrorFetchingDomains (PStr ''prj_4''),
                     AttemptingToCreate (PStr ''site''), ErrorCreating (PStr ''site''),
                     ResponseStatus 422, ResponseText None]\<rparr>"
    using k5 ids rf sc lk ar el shaped pe
    by (auto simp: start_def expected_details_world_def prints_def)
  have m: "example_summaries \<noteq> []"
    "filter is_processing (printed (prints example_listed
        [FoundProjects (length example_summaries)])) = []"
    by (simp_all add: example_summaries_def example_listed_def is_processing_def)
  have T: "filter is_processing (printed example_run_end)
             = map processing_line example_summaries"
    using tr example_processing m(2) by simp
  have M: "main (start example_run) example_bulk_args =
     Done () (prints example_run_end [MigrationFinished])"
    using mn example_listing example_processing m ar by simp
  show ?thesis
    using K1 K2 K3 K4 K5 L T M ids rf sc lk ar el shaped m example_listing example_processing
    by simp
qed

text \<open>
  The claim C8 as the specification words it fails on this run of six projects (one
  without an id, one whose core info cannot be fetched, one not linked to GitHub, one
  without a name, one whose creation is rejected, one created). The run processes all six
  and returns; what it yields is the unit value and these printed lines, the last of which
  says that the migration is finished: there is no summary and no count.
\<close>

theorem bulk_run_counterexample:
  "main (start example_run) example_bulk_args =
     Done ()
       \<lparr>replies = [],
          sent = [Get VercelProjects ''vt'',
                  Get (VercelProject (PStr ''prj_2'')) ''vt'',
                  Get (VercelProject (PStr ''prj_3'')) ''vt'',
                  Get (VercelProjectEnv (PStr ''prj_3'')) ''vt'',
                  Get (VercelProjectDomains (PStr ''prj_3'')) ''vt'',
                  Get (VercelProject (PStr ''prj_6'')) ''vt'',
                  Get (VercelProjectEnv (PStr ''prj_6'')) ''vt'',
                  Get (VercelProjectDomains (PStr ''prj_6'')) ''vt'',
                  Get (VercelProject (PStr ''prj_4'')) ''vt'',
                  Get (VercelProjectEnv (PStr ''prj_4'')) ''vt'',
                  Get (VercelProjectDomains (PStr ''prj_4'')) ''vt'',
                  Post (CloudflarePagesProjects ''acct'') ''ct'' example_payload,
                  Get (VercelProject (PStr ''prj_5'')) ''vt'',
                  Get (VercelProjectEnv (PStr ''prj_5'')) ''vt'',
                  Get (VercelProjectDomains (PStr ''prj_5'')) ''vt'',
                  Post (CloudflarePagesProjects ''acct'') ''ct'' example_payload],
          printed = [FetchingProjects, FoundProjects 6,
                     ProcessingProject (PStr ''noid'') PNone, SkippingMissingId,
                     ProcessingProject (PStr ''down'') (PStr ''prj_2''),
                     ErrorFetchingInfo (PStr ''prj_2''), SkippingFailedDetails (PStr ''down''),
                     ProcessingProject (PStr ''blog'') (PStr ''prj_3''),
                     SkippingAutomaticMigration (PStr ''blog''), ManualMigrationMightBeRequired,
                     ProcessingProject (PStr ''ghost'') (PStr ''prj_6''), SkippingMissingName,
                     ProcessingProject (PStr ''site'') (PStr ''prj_4''),
                     ErrorFetchingDomains (PStr ''prj_4''),
                     AttemptingToCreate (PStr ''site''), ErrorCreating (PStr ''site''),
                     ResponseStatus 422, ResponseText None,
                     ProcessingProject (PStr ''site'') (PStr ''prj_5''),
                     AttemptingToCreate (PStr ''site''),
                     SuccessfullyCreated (PStr ''site''), Subdomain (PStr ''site.pages.dev''),
                     MigrationFinished]\<rparr>"
proof -
  have "main (start example_run) example_bulk_args =
          Done () (prints example_run_end [MigrationFinished])"
    using main_bulk[of example_bulk_args "start example_run" example_summaries example_listed
        "()" example_run_end] example_listing example_processing
    by (simp add: example_bulk_args_def example_summaries_def)
  then show ?thesis by (simp add: example_run_end_def prints_def)
qed

end
